theory Spec2Isabelle
  imports Main "HOL-Library.AList"
begin

section \<open>The sync manager of utcd (netsync), embedded in HOL\<close>

text \<open>
  Hashes (\<open>chainhash.Hash\<close>, 32 bytes) are modelled as natural numbers; \<open>zeroHash\<close> is 0.
  A Go \<open>map[chainhash.Hash]struct{}\<close> is a finite set of hashes.
\<close>

type_synonym hash = nat

definition zeroHash :: hash where
  "zeroHash = 0"

subsection \<open>limitAdd\<close>

text \<open>
  Go's \<open>for k := range m { delete(m, k); break }\<close> removes the first key the iteration
  yields, which is some key of the map, not specified which. The iteration is modelled by a
  seed: the key at position \<open>seed mod len(m)\<close> of the keys. Every seed yields a key of
  the map and every key is yielded by some seed. On an empty map the loop body does not run.
\<close>

definition rangeFirst :: "nat \<Rightarrow> hash set \<Rightarrow> hash option" where
  "rangeFirst seed m =
     (if m = {} then None else Some (sorted_list_of_set m ! (seed mod card m)))"

definition limitAdd :: "nat \<Rightarrow> hash set \<Rightarrow> hash \<Rightarrow> int \<Rightarrow> hash set" where
  "limitAdd seed m h limit =
     (let m1 = (if int (card m) + 1 > limit
                then (case rangeFirst seed m of None \<Rightarrow> m | Some txHash \<Rightarrow> m - {txHash})
                else m)
      in insert h m1)"

text \<open>A sequence of \<open>limitAdd\<close> calls with the same limit; each call has its own seed.\<close>

fun limitAddSeq :: "hash set \<Rightarrow> (nat \<times> hash) list \<Rightarrow> int \<Rightarrow> hash set" where
  "limitAddSeq m [] limit = m"
| "limitAddSeq m ((seed, h) # rest) limit = limitAddSeq (limitAdd seed m h limit) rest limit"

subsection \<open>Data model\<close>

text \<open>
  A peer (\<open>*peerpkg.Peer\<close>) is identified by a number standing for the pointer. Heights
  (\<open>int32\<close>) and times (nanoseconds) are integers; the only arithmetic on heights is the
  increment of a header height, written with its 32-bit wrap-around.
\<close>

type_synonym peer = nat

definition int32 :: "int \<Rightarrow> int" where
  "int32 x = ((x + 2147483648) mod 4294967296) - 2147483648"

datatype InvType =
    InvTypeTx | InvTypeBlock | InvTypeUBlock
  | InvTypeWitnessBlock | InvTypeWitnessUBlock | InvTypeWitnessTx
  | InvTypeOther nat

record InvVect =
  ivType :: InvType
  ivHash :: hash

record HeaderNode =
  nodeHeight :: int
  nodeHash :: hash

record Checkpoint =
  cpHeight :: int
  cpHash :: hash

record UtreexoRootHint =
  hintHeight :: int
  hintRoots :: "hash list"

text \<open>
  The accumulator behind a \<open>UtreexoViewpoint\<close> is outside the repository; the viewpoint
  is represented by what \<open>accumulator.GetRoots()\<close> returns for it.
\<close>

record uTreeState =
  uView :: "hash list"
  startRoot :: "UtreexoRootHint option"
  rootToVerify :: UtreexoRootHint

record peerSyncState =
  syncCandidate :: bool
  requestQueue :: "InvVect list"
  peerRequestedTxns :: "hash set"
  peerRequestedBlocks :: "hash set"

datatype net = MainNetParams | RegressionNetParams | TestNet3Params | SimNetParams

text \<open>
  \<open>sm.startHeader\<close> is a pointer to an element of \<open>sm.headerList\<close> (\<open>container/list\<close>).
  \<open>Attached i\<close> is the element at position \<open>i\<close> of the list. An element that was removed
  from the list, or that belonged to the list before \<open>Init()\<close>, is \<open>Detached\<close>: it keeps its
  value and the values that \<open>Next()\<close> still reaches from it (none for a removed element).
\<close>

datatype elemRef = Attached nat | Detached "HeaderNode list"

record SyncManager =
  shutdown :: int
  chainParams :: net
  rejectedTxns :: "hash set"
  requestedTxns :: "hash set"
  requestedBlocks :: "hash set"
  syncPeer :: "peer option"
  peerStates :: "(peer \<times> peerSyncState) list"
  lastProgressTime :: int
  headersFirstMode :: bool
  headerList :: "HeaderNode list"
  startHeader :: "elemRef option"
  nextCheckpoint :: "Checkpoint option"
  utreexoCSN :: bool
  utreexoMN :: bool
  utreexoWN :: bool
  utreexoRootVerifyMode :: bool
  utreexoRootToVerify :: "UtreexoRootHint option"
  utreexoStartRoot :: "UtreexoRootHint option"
  newSyncNum :: int
  uTreeMap :: "(int \<times> uTreeState) list"

text \<open>Panics of the Go code are error values.\<close>

datatype error =
    NilPointerDereference
  | DatabaseCorruption
  | LookupNodeFailed
  | UStateNotFound int
  | ProcessHeaderUBlockFailed
  | NotMainChain
  | GenUtreexoViewpointFailed

subsection \<open>Collaborators\<close>

text \<open>
  The chain, the mempool, the peers, the clock and the random source are outside the
  repository's sync manager. A call that changes a collaborator is recorded as an event, in
  the order of the calls. What a collaborator answers during one run of a handler is given by
  an environment.
\<close>

datatype BehaviorFlags = BFNone | BFFastAdd

datatype FlushMode = FlushRequired | FlushPeriodic

datatype Cmd = CmdTx | CmdBlock | CmdUBlock

datatype ServiceFlag = SFNodeNetwork | SFNodeUtreexo

datatype chainError = RuleError | DatabaseErrCorruption | DatabaseErrOther | OtherError

datatype processResult = ProcessErr chainError | Processed bool bool

datatype txResult = TxRuleError | TxOtherError | TxAccepted "hash list"

datatype utxoResult = UtxoErr | UtxoNil | UtxoEntry bool

record ProcessedURootHint =
  Validated :: bool
  URootHintHeight :: int

datatype event =
    Disconnect peer
  | PushGetHeadersMsg peer "hash list" hash
  | PushGetHeadersMsgNilLocator peer hash
  | PushGetBlocksMsg peer "hash list" hash
  | PushGetUBlocksMsg peer "hash list" hash
  | PushRejectMsg peer Cmd hash
  | QueueMessageGetData peer "InvVect list"
  | UpdateLastBlockHeight peer int
  | UpdateLastAnnouncedBlock peer hash
  | AddKnownInventory peer InvVect
  | UpdatePeerHeights hash int peer
  | AnnounceNewTransactions "hash list"
  | MempoolProcessTransaction hash peer
  | ChainProcessBlock hash BehaviorFlags
  | ChainProcessUBlock hash BehaviorFlags
  | ChainProcessHeaderUBlock hash
  | ChainProcessHeaders "hash list"
  | FlushCachedState FlushMode
  | CloseNewSyncPeer
  | QueueURootHint UtreexoRootHint
  | QueueProcessedURootHint ProcessedURootHint
  | VerifiedSend ProcessedURootHint
  | Reply
  | ReplySyncPeerID int
  | ReplyProcessBlock bool "chainError option"
  | ReplyIsCurrent bool
  | DoneSend
  | WgDone

record env =
  MaxInvPerMsg :: nat
  now :: int
  randSource :: nat
  rangeSeed :: "hash set \<Rightarrow> nat"
  IsDeploymentActive :: "bool \<times> bool"
  BestSnapshot :: "int \<times> hash"
  LatestBlockLocator :: "hash list option"
  BlockLocatorFromHash :: "hash \<Rightarrow> hash list"
  Checkpoints :: "Checkpoint list"
  IsCurrent :: bool
  HaveBlock :: "hash \<Rightarrow> bool \<times> bool"
  HaveUBlock :: "hash \<Rightarrow> bool \<times> bool"
  HaveTransaction :: "hash \<Rightarrow> bool"
  FetchUtxoEntry :: "hash \<Rightarrow> nat \<Rightarrow> utxoResult"
  IsKnownOrphan :: "hash \<Rightarrow> bool \<Rightarrow> bool"
  GetOrphanRoot :: "hash \<Rightarrow> bool \<Rightarrow> hash"
  BlockHeightByHash :: "hash \<Rightarrow> int option"
  ProcessBlock :: "hash \<Rightarrow> BehaviorFlags \<Rightarrow> processResult"
  ProcessUBlock :: "hash \<Rightarrow> BehaviorFlags \<Rightarrow> processResult"
  ProcessHeaderUBlock :: "hash \<Rightarrow> hash list \<Rightarrow> (bool \<times> hash list) option"
  ProcessHeaders :: "hash list \<Rightarrow> bool"
  LookupNode :: "hash \<Rightarrow> int option"
  FindPreviousUtreexoRootHint :: "int \<Rightarrow> UtreexoRootHint option"
  deserializeUtreexoView :: "UtreexoRootHint \<Rightarrow> hash list option"
  ShouldHaveSerializedBlockHeight :: "hash \<Rightarrow> bool"
  ExtractCoinbaseHeight :: "hash \<Rightarrow> int option"
  ProcessTransaction :: "hash \<Rightarrow> txResult"
  LastBlock :: "peer \<Rightarrow> int"
  StartingHeight :: "peer \<Rightarrow> int"
  IsWitnessEnabled :: "peer \<Rightarrow> bool"
  Services :: "peer \<Rightarrow> ServiceFlag set"
  AddrHost :: "peer \<Rightarrow> string option"
  PushGetHeadersMsgFails :: "peer \<Rightarrow> bool"
  PeerID :: "peer \<Rightarrow> int"

type_synonym result = "error + SyncManager \<times> event list"

subsection \<open>Sequencing\<close>

definition emit :: "event list \<Rightarrow> result \<Rightarrow> result" where
  "emit evs r = (case r of Inl e \<Rightarrow> Inl e | Inr (s, evs') \<Rightarrow> Inr (s, evs @ evs'))"

definition andThen :: "result \<Rightarrow> (SyncManager \<Rightarrow> result) \<Rightarrow> result" where
  "andThen r f = (case r of Inl e \<Rightarrow> Inl e | Inr (s, evs) \<Rightarrow> emit evs (f s))"

subsection \<open>Constants\<close>

definition minInFlightBlocks :: nat where
  "minInFlightBlocks = 10"

definition maxRejectedTxns :: int where
  "maxRejectedTxns = 1000"

definition maxRequestedBlocks :: "env \<Rightarrow> int" where
  "maxRequestedBlocks env = int (MaxInvPerMsg env)"

definition maxRequestedTxns :: "env \<Rightarrow> int" where
  "maxRequestedTxns env = int (MaxInvPerMsg env)"

text \<open>\<open>3 * time.Minute\<close>, in nanoseconds.\<close>

definition maxStallDuration :: int where
  "maxStallDuration = 3 * 60 * 1000000000"

subsection \<open>The header list and its cursor\<close>

definition refNodes :: "HeaderNode list \<Rightarrow> elemRef \<Rightarrow> HeaderNode list" where
  "refNodes hl r = (case r of Attached i \<Rightarrow> drop i hl | Detached ns \<Rightarrow> ns)"

text \<open>\<open>refAfter hl r k\<close> is \<open>Next()\<close> applied \<open>k\<close> times to the element \<open>r\<close>.\<close>

definition refAfter :: "HeaderNode list \<Rightarrow> elemRef \<Rightarrow> nat \<Rightarrow> elemRef option" where
  "refAfter hl r k =
     (case r of
        Attached i \<Rightarrow> if i + k < length hl then Some (Attached (i + k)) else None
      | Detached ns \<Rightarrow> if k < length ns then Some (Detached (drop k ns)) else None)"

definition listPushBack :: "HeaderNode \<Rightarrow> SyncManager \<Rightarrow> SyncManager" where
  "listPushBack node s = s\<lparr>headerList := headerList s @ [node]\<rparr>"

definition listRemoveFront :: "SyncManager \<Rightarrow> SyncManager" where
  "listRemoveFront s =
     (case headerList s of
        [] \<Rightarrow> s
      | node # rest \<Rightarrow>
          s\<lparr>headerList := rest,
            startHeader :=
              (case startHeader s of
                 Some (Attached 0) \<Rightarrow> Some (Detached [node])
               | Some (Attached (Suc i)) \<Rightarrow> Some (Attached i)
               | other \<Rightarrow> other)\<rparr>)"

definition listInit :: "SyncManager \<Rightarrow> SyncManager" where
  "listInit s =
     s\<lparr>headerList := [],
       startHeader :=
         (case startHeader s of
            Some (Attached i) \<Rightarrow> Some (Detached (drop i (headerList s)))
          | other \<Rightarrow> other)\<rparr>"

subsection \<open>resetHeaderState, findNextHeaderCheckpoint\<close>

definition resetHeaderState :: "env \<Rightarrow> SyncManager \<Rightarrow> hash \<Rightarrow> int \<Rightarrow> SyncManager" where
  "resetHeaderState env s newestHash newestHeight =
     (if utreexoWN s then s
      else
        let s1 = (listInit (s\<lparr>headersFirstMode := False\<rparr>))\<lparr>startHeader := None\<rparr>;
            s2 = (if nextCheckpoint s1 \<noteq> None
                  then listPushBack \<lparr>nodeHeight = newestHeight, nodeHash = newestHash\<rparr> s1
                  else s1)
        in if utreexoMN s2
           then s2\<lparr>headerList :=
                  [\<lparr>nodeHeight = fst (BestSnapshot env), nodeHash = snd (BestSnapshot env)\<rparr>]\<rparr>
           else s2)"

text \<open>The loop of \<open>findNextHeaderCheckpoint\<close>, from index \<open>len - 2\<close> down to 0.\<close>

fun scanCheckpoints :: "int \<Rightarrow> Checkpoint list \<Rightarrow> Checkpoint \<Rightarrow> Checkpoint" where
  "scanCheckpoints height [] nextCp = nextCp"
| "scanCheckpoints height (c # cs) nextCp =
     (if height \<ge> cpHeight c then nextCp else scanCheckpoints height cs c)"

definition findNextHeaderCheckpoint :: "env \<Rightarrow> int \<Rightarrow> Checkpoint option" where
  "findNextHeaderCheckpoint env height =
     (let checkpoints = Checkpoints env
      in if length checkpoints = 0 then None
         else
           let finalCheckpoint = last checkpoints
           in if height \<ge> cpHeight finalCheckpoint then None
              else Some (scanCheckpoints height (rev (butlast checkpoints)) finalCheckpoint))"

subsection \<open>haveInventory, current\<close>

definition haveInventory :: "env \<Rightarrow> InvVect \<Rightarrow> bool \<times> bool" where
  "haveInventory env invVect =
     (case ivType invVect of
        InvTypeWitnessBlock \<Rightarrow> HaveBlock env (ivHash invVect)
      | InvTypeBlock \<Rightarrow> HaveBlock env (ivHash invVect)
      | InvTypeWitnessUBlock \<Rightarrow> HaveUBlock env (ivHash invVect)
      | InvTypeUBlock \<Rightarrow> HaveUBlock env (ivHash invVect)
      | InvTypeOther n \<Rightarrow> (True, False)
      | _ \<Rightarrow>
          if HaveTransaction env (ivHash invVect) then (True, False)
          else (case FetchUtxoEntry env (ivHash invVect) 0 of
                  UtxoErr \<Rightarrow> (False, True)
                | UtxoEntry False \<Rightarrow> (True, False)
                | _ \<Rightarrow>
                   (case FetchUtxoEntry env (ivHash invVect) 1 of
                      UtxoErr \<Rightarrow> (False, True)
                    | UtxoEntry False \<Rightarrow> (True, False)
                    | _ \<Rightarrow> (False, False))))"

definition current :: "env \<Rightarrow> SyncManager \<Rightarrow> bool" where
  "current env s =
     (if \<not> IsCurrent env then False
      else (case syncPeer s of
              None \<Rightarrow> True
            | Some sp \<Rightarrow> if fst (BestSnapshot env) < LastBlock env sp then False else True))"

subsection \<open>clearRequestedState\<close>

definition clearRequestedState :: "SyncManager \<Rightarrow> peerSyncState \<Rightarrow> SyncManager" where
  "clearRequestedState s state =
     s\<lparr>requestedTxns := requestedTxns s - peerRequestedTxns state,
       requestedBlocks := requestedBlocks s - peerRequestedBlocks state\<rparr>"

subsection \<open>Requesting the blocks of the header list\<close>

text \<open>
  \<open>addRequested\<close> is the pair of map writes
  \<open>sm.requestedBlocks[h] = struct{}{}\<close>, \<open>syncPeerState.requestedBlocks[h] = struct{}{}\<close>
  of the fetch functions, with \<open>syncPeerState := sm.peerStates[sm.syncPeer]\<close>. The second
  write dereferences a nil pointer when the sync peer has no state.
\<close>

definition addRequested :: "SyncManager \<Rightarrow> hash \<Rightarrow> error + SyncManager" where
  "addRequested s h =
     (case syncPeer s of
        None \<Rightarrow> Inl NilPointerDereference
      | Some sp \<Rightarrow>
         (case map_of (peerStates s) sp of
            None \<Rightarrow> Inl NilPointerDereference
          | Some st \<Rightarrow>
              Inr (s\<lparr>requestedBlocks := insert h (requestedBlocks s),
                     peerStates :=
                       AList.update sp
                         (st\<lparr>peerRequestedBlocks := insert h (peerRequestedBlocks st)\<rparr>)
                         (peerStates s)\<rparr>)))"

definition syncPeerWitness :: "env \<Rightarrow> SyncManager \<Rightarrow> bool" where
  "syncPeerWitness env s = (case syncPeer s of None \<Rightarrow> False | Some sp \<Rightarrow> IsWitnessEnabled env sp)"

definition witnessUBlockType :: "SyncManager \<Rightarrow> InvType" where
  "witnessUBlockType s = (if utreexoCSN s then InvTypeWitnessUBlock else InvTypeWitnessBlock)"

text \<open>
  The loop of \<open>fetchHeaderBlocks\<close> (\<open>ub = False\<close>) and of \<open>fetchHeaderUBlocks\<close>
  (\<open>ub = True\<close>) over the elements from \<open>sm.startHeader\<close> on: \<open>r0\<close> is the element the
  loop started at, \<open>k\<close> the number of elements already visited, \<open>gd\<close> the inventory list of
  the getdata message.
\<close>

fun fetchLoop ::
  "env \<Rightarrow> bool \<Rightarrow> elemRef \<Rightarrow> HeaderNode list \<Rightarrow> nat \<Rightarrow> nat \<Rightarrow> SyncManager \<Rightarrow> InvVect list \<Rightarrow>
   error + SyncManager \<times> InvVect list" where
  "fetchLoop env ub r0 [] k numRequested s gd = Inr (s, gd)"
| "fetchLoop env ub r0 (node # rest) k numRequested s gd =
     (let iv = \<lparr>ivType = (if ub then InvTypeUBlock else InvTypeBlock), ivHash = nodeHash node\<rparr>;
          haveInv = fst (haveInventory env iv)
      in if \<not> haveInv then
           (case addRequested s (nodeHash node) of
              Inl e \<Rightarrow> Inl e
            | Inr s1 \<Rightarrow>
               let iv1 = (if syncPeerWitness env s1
                          then iv\<lparr>ivType := (if ub then witnessUBlockType s1 else InvTypeWitnessBlock)\<rparr>
                          else iv);
                   s2 = s1\<lparr>startHeader := refAfter (headerList s1) r0 (Suc k)\<rparr>
               in if Suc numRequested \<ge> MaxInvPerMsg env then Inr (s2, gd @ [iv1])
                  else fetchLoop env ub r0 rest (Suc k) (Suc numRequested) s2 (gd @ [iv1]))
         else
           let s2 = s\<lparr>startHeader := refAfter (headerList s) r0 (Suc k)\<rparr>
           in if numRequested \<ge> MaxInvPerMsg env then Inr (s2, gd)
              else fetchLoop env ub r0 rest (Suc k) numRequested s2 gd)"

definition sendGetData :: "SyncManager \<Rightarrow> InvVect list \<Rightarrow> result" where
  "sendGetData s gd =
     (if length gd > 0
      then (case syncPeer s of
              None \<Rightarrow> Inl NilPointerDereference
            | Some sp \<Rightarrow> Inr (s, [QueueMessageGetData sp gd]))
      else Inr (s, []))"

definition fetchHeaderBlocks :: "env \<Rightarrow> SyncManager \<Rightarrow> result" where
  "fetchHeaderBlocks env s =
     (case startHeader s of
        None \<Rightarrow> Inr (s, [])
      | Some r0 \<Rightarrow>
         (case fetchLoop env False r0 (refNodes (headerList s) r0) 0 0 s [] of
            Inl e \<Rightarrow> Inl e
          | Inr (s1, gd) \<Rightarrow> sendGetData s1 gd))"

definition fetchHeaderUBlocks :: "env \<Rightarrow> SyncManager \<Rightarrow> result" where
  "fetchHeaderUBlocks env s =
     (case startHeader s of
        None \<Rightarrow> Inr (s, [])
      | Some r0 \<Rightarrow>
         (case fetchLoop env True r0 (refNodes (headerList s) r0) 0 0 s [] of
            Inl e \<Rightarrow> Inl e
          | Inr (s1, gd) \<Rightarrow> sendGetData s1 gd))"

text \<open>
  The loop of \<open>fetchHeaderVerifyUBlocks\<close>. A skipped element (\<open>continue\<close>) does not move
  \<open>sm.startHeader\<close>; \<open>k\<close> counts the elements visited, and the cursor is set to the element
  after the one just requested. \<open>sm.utreexoRootToVerify\<close> is \<open>rootHint\<close>.
\<close>

fun fetchVerifyLoop ::
  "env \<Rightarrow> UtreexoRootHint option \<Rightarrow> UtreexoRootHint option \<Rightarrow> elemRef \<Rightarrow> HeaderNode list \<Rightarrow>
   nat \<Rightarrow> nat \<Rightarrow> SyncManager \<Rightarrow> InvVect list \<Rightarrow> error + SyncManager \<times> InvVect list" where
  "fetchVerifyLoop env rootHint prevURoot r0 [] k numRequested s gd = Inr (s, gd)"
| "fetchVerifyLoop env rootHint prevURoot r0 (node # rest) k numRequested s gd =
     (let skip = (case rootHint of
                    None \<Rightarrow> False
                  | Some rt \<Rightarrow> (case prevURoot of
                                 None \<Rightarrow> False
                               | Some pr \<Rightarrow> nodeHeight node \<le> hintHeight pr));
          stop = (case rootHint of
                    None \<Rightarrow> False
                  | Some rt \<Rightarrow> nodeHeight node > hintHeight rt)
      in if skip then fetchVerifyLoop env rootHint prevURoot r0 rest (Suc k) numRequested s gd
         else if stop then Inr (s, gd)
         else
           (case addRequested s (nodeHash node) of
              Inl e \<Rightarrow> Inl e
            | Inr s1 \<Rightarrow>
               let iv = \<lparr>ivType = (if syncPeerWitness env s1 then witnessUBlockType s1
                                    else InvTypeUBlock),
                         ivHash = nodeHash node\<rparr>;
                   s2 = s1\<lparr>startHeader := refAfter (headerList s1) r0 (Suc k)\<rparr>
               in if Suc numRequested \<ge> MaxInvPerMsg env then Inr (s2, gd @ [iv])
                  else fetchVerifyLoop env rootHint prevURoot r0 rest (Suc k) (Suc numRequested)
                         s2 (gd @ [iv])))"

definition fetchHeaderVerifyUBlocks :: "env \<Rightarrow> SyncManager \<Rightarrow> result" where
  "fetchHeaderVerifyUBlocks env s =
     (case startHeader s of
        None \<Rightarrow> Inr (s, [])
      | Some r0 \<Rightarrow>
         (case utreexoRootToVerify s of
            None \<Rightarrow> Inl NilPointerDereference
          | Some rt \<Rightarrow>
             (case fetchVerifyLoop env (Some rt) (FindPreviousUtreexoRootHint env (hintHeight rt))
                     r0 (refNodes (headerList s) r0) 0 0 s [] of
                Inl e \<Rightarrow> Inl e
              | Inr (s1, gd) \<Rightarrow> sendGetData s1 gd)))"

text \<open>
  The loop of \<open>fetchParallelVerifyUBlocks\<close>, from the front of the list; its cursor is a
  local variable, so \<open>sm.startHeader\<close> stays as it is.
\<close>

fun fetchParallelLoop ::
  "env \<Rightarrow> int \<Rightarrow> int \<Rightarrow> HeaderNode list \<Rightarrow> nat \<Rightarrow> SyncManager \<Rightarrow> InvVect list \<Rightarrow>
   error + SyncManager \<times> InvVect list" where
  "fetchParallelLoop env start endHeight [] numRequested s gd = Inr (s, gd)"
| "fetchParallelLoop env start endHeight (node # rest) numRequested s gd =
     (if nodeHeight node \<le> start then fetchParallelLoop env start endHeight rest numRequested s gd
      else if nodeHeight node > endHeight then Inr (s, gd)
      else
        (case addRequested s (nodeHash node) of
           Inl e \<Rightarrow> Inl e
         | Inr s1 \<Rightarrow>
            let iv = \<lparr>ivType = (if syncPeerWitness env s1 then witnessUBlockType s1
                                 else InvTypeUBlock),
                      ivHash = nodeHash node\<rparr>
            in if Suc numRequested \<ge> MaxInvPerMsg env then Inr (s1, gd @ [iv])
               else fetchParallelLoop env start endHeight rest (Suc numRequested) s1 (gd @ [iv])))"

definition fetchParallelVerifyUBlocks :: "env \<Rightarrow> SyncManager \<Rightarrow> int \<Rightarrow> int \<Rightarrow> result" where
  "fetchParallelVerifyUBlocks env s start endHeight =
     (case fetchParallelLoop env start endHeight (headerList s) 0 s [] of
        Inl e \<Rightarrow> Inl e
      | Inr (s1, gd) \<Rightarrow> sendGetData s1 gd)"

subsection \<open>Choosing the sync peer\<close>

text \<open>
  The loop over \<open>sm.peerStates\<close> shared by \<open>startSync\<close>, \<open>ValidateUtreexoRoot\<close> and
  \<open>ValidateParallelUtreexoRoot\<close>: \<open>height\<close> is the height the peers are compared with. It
  returns the peer states (a peer that fell behind is no longer a candidate), the higher
  peers and the equal peers. The iteration order of the Go map is the order of the list.
\<close>

fun selectPeers ::
  "env \<Rightarrow> bool \<Rightarrow> int \<Rightarrow> (peer \<times> peerSyncState) list \<Rightarrow>
   (peer \<times> peerSyncState) list \<times> peer list \<times> peer list" where
  "selectPeers env segwitActive height [] = ([], [], [])"
| "selectPeers env segwitActive height ((p, state) # rest) =
     (let (rest', higherPeers, equalPeers) = selectPeers env segwitActive height rest
      in if \<not> syncCandidate state then ((p, state) # rest', higherPeers, equalPeers)
         else if segwitActive \<and> \<not> IsWitnessEnabled env p
           then ((p, state) # rest', higherPeers, equalPeers)
         else if LastBlock env p < height
           then ((p, state\<lparr>syncCandidate := False\<rparr>) # rest', higherPeers, equalPeers)
         else if LastBlock env p = height
           then ((p, state) # rest', higherPeers, p # equalPeers)
         else ((p, state) # rest', p # higherPeers, equalPeers))"

text \<open>\<open>rand.Intn(n)\<close> returns a number below \<open>n\<close>.\<close>

definition pickBestPeer :: "env \<Rightarrow> peer list \<Rightarrow> peer list \<Rightarrow> peer option" where
  "pickBestPeer env higherPeers equalPeers =
     (if length higherPeers > 0
        then Some (higherPeers ! (randSource env mod length higherPeers))
      else if length equalPeers > 0
        then Some (equalPeers ! (randSource env mod length equalPeers))
      else None)"

definition ValidateUtreexoRoot :: "env \<Rightarrow> SyncManager \<Rightarrow> result" where
  "ValidateUtreexoRoot env s =
     (case utreexoRootToVerify s of
        None \<Rightarrow> Inl NilPointerDereference
      | Some rootHint \<Rightarrow>
         (let (states, higherPeers, equalPeers) =
                selectPeers env True (hintHeight rootHint) (peerStates s);
              s1 = s\<lparr>peerStates := states\<rparr>
          in case pickBestPeer env higherPeers equalPeers of
               None \<Rightarrow> Inr (s1, [])
             | Some bestPeer \<Rightarrow>
                (let s2 = s1\<lparr>utreexoRootVerifyMode := True, headersFirstMode := True\<rparr>
                 in case LatestBlockLocator env of
                      None \<Rightarrow> Inr (s2, [])
                    | Some locator \<Rightarrow>
                       andThen
                         (if chainParams s2 \<noteq> RegressionNetParams then
                            (case headerList s2 of
                               [] \<Rightarrow> Inl NilPointerDereference
                             | _ \<Rightarrow>
                                if nodeHeight (last (headerList s2)) \<ge> hintHeight rootHint
                                then fetchHeaderVerifyUBlocks env (s2\<lparr>syncPeer := Some bestPeer\<rparr>)
                                else Inr (s2\<lparr>headersFirstMode := True\<rparr>,
                                          [PushGetHeadersMsg bestPeer locator zeroHash]))
                          else Inr (s2, []))
                         (\<lambda>s3. Inr (s3\<lparr>syncPeer := Some bestPeer,
                                       lastProgressTime := now env\<rparr>, [])))))"

definition ValidateParallelUtreexoRoot :: "env \<Rightarrow> SyncManager \<Rightarrow> int \<Rightarrow> int \<Rightarrow> result" where
  "ValidateParallelUtreexoRoot env s startHeight endHeight =
     (let (states, higherPeers, equalPeers) = selectPeers env True endHeight (peerStates s);
          s1 = s\<lparr>peerStates := states\<rparr>
      in case pickBestPeer env higherPeers equalPeers of
           None \<Rightarrow> Inr (s1, [])
         | Some bestPeer \<Rightarrow>
            (let s2 = s1\<lparr>utreexoRootVerifyMode := True, headersFirstMode := True\<rparr>
             in andThen
                  (if chainParams s2 \<noteq> RegressionNetParams
                   then fetchParallelVerifyUBlocks env (s2\<lparr>syncPeer := Some bestPeer\<rparr>)
                          startHeight endHeight
                   else Inr (s2, []))
                  (\<lambda>s3. Inr (s3\<lparr>syncPeer := Some bestPeer, lastProgressTime := now env\<rparr>, []))))"

text \<open>
  \<open>QueueURootHint\<close> sends the hint to the manager's own message channel unless the manager
  is shutting down; the send is recorded as an event.
\<close>

definition QueueURootHintEvents :: "SyncManager \<Rightarrow> UtreexoRootHint \<Rightarrow> event list" where
  "QueueURootHintEvents s hint = (if shutdown s \<noteq> 0 then [] else [QueueURootHint hint])"

definition startSync :: "env \<Rightarrow> SyncManager \<Rightarrow> result" where
  "startSync env s =
     (if syncPeer s \<noteq> None then Inr (s, [])
      else if utreexoRootVerifyMode s then
        (if utreexoMN s then ValidateUtreexoRoot env s
         else Inr (s, concat (map (\<lambda>(k, u). QueueURootHintEvents s (rootToVerify u)) (uTreeMap s))))
      else if snd (IsDeploymentActive env) then Inr (s, [])
      else
        (let segwitActive = fst (IsDeploymentActive env);
             best = BestSnapshot env;
             (states, higherPeers, equalPeers) =
               selectPeers env segwitActive (fst best) (peerStates s);
             s1 = s\<lparr>peerStates := states\<rparr>
         in case pickBestPeer env higherPeers equalPeers of
              None \<Rightarrow> Inr (s1, [])
            | Some bestPeer \<Rightarrow>
               (let s2 = s1\<lparr>requestedBlocks := {}\<rparr>
                in case LatestBlockLocator env of
                     None \<Rightarrow> Inr (s2, [])
                   | Some locator \<Rightarrow>
                      (case nextCheckpoint s2 of
                         Some cp \<Rightarrow>
                           if fst best < cpHeight cp \<and> chainParams s2 \<noteq> RegressionNetParams
                           then Inr (s2\<lparr>headersFirstMode := True, syncPeer := Some bestPeer,
                                        lastProgressTime := now env\<rparr>,
                                     [PushGetHeadersMsg bestPeer locator (cpHash cp)])
                           else Inr (s2\<lparr>syncPeer := Some bestPeer, lastProgressTime := now env\<rparr>,
                                     [if utreexoCSN s2
                                      then PushGetUBlocksMsg bestPeer locator zeroHash
                                      else PushGetBlocksMsg bestPeer locator zeroHash])
                       | None \<Rightarrow>
                           Inr (s2\<lparr>syncPeer := Some bestPeer, lastProgressTime := now env\<rparr>,
                                [if utreexoCSN s2
                                 then PushGetUBlocksMsg bestPeer locator zeroHash
                                 else PushGetBlocksMsg bestPeer locator zeroHash])))))"

subsection \<open>New peers, stalls, lost peers\<close>

definition isSyncCandidate :: "env \<Rightarrow> SyncManager \<Rightarrow> peer \<Rightarrow> bool" where
  "isSyncCandidate env s p =
     (if chainParams s = RegressionNetParams then
        (case AddrHost env p of
           None \<Rightarrow> False
         | Some host \<Rightarrow> \<not> (host \<noteq> ''127.0.0.1'' \<and> host \<noteq> ''localhost''))
      else
        (let segwitActive = fst (IsDeploymentActive env);
             nodeServices = Services env p
         in if utreexoCSN s then SFNodeUtreexo \<in> nodeServices
            else \<not> (SFNodeNetwork \<notin> nodeServices \<or> (segwitActive \<and> \<not> IsWitnessEnabled env p))))"

definition handleNewPeerMsg :: "env \<Rightarrow> SyncManager \<Rightarrow> peer \<Rightarrow> result" where
  "handleNewPeerMsg env s p =
     (if shutdown s \<noteq> 0 then Inr (s, [])
      else
        let cand = isSyncCandidate env s p;
            s1 = s\<lparr>peerStates :=
                    AList.update p
                      \<lparr>syncCandidate = cand, requestQueue = [],
                       peerRequestedTxns = {}, peerRequestedBlocks = {}\<rparr>
                      (peerStates s)\<rparr>
        in if cand \<and> syncPeer s1 = None then
             (if newSyncNum s1 = 0
              then emit [CloseNewSyncPeer] (startSync env (s1\<lparr>newSyncNum := newSyncNum s1 + 1\<rparr>))
              else startSync env s1)
           else Inr (s1, []))"

definition shouldDCStalledSyncPeer :: "env \<Rightarrow> peer \<Rightarrow> bool" where
  "shouldDCStalledSyncPeer env sp =
     (let lastBlock = LastBlock env sp;
          startHeight = StartingHeight env sp;
          peerHeight = (if lastBlock > startHeight then lastBlock else startHeight)
      in peerHeight > fst (BestSnapshot env))"

definition updateSyncPeer :: "env \<Rightarrow> SyncManager \<Rightarrow> bool \<Rightarrow> result" where
  "updateSyncPeer env s dcSyncPeer =
     andThen
       (if dcSyncPeer
        then (case syncPeer s of
                None \<Rightarrow> Inl NilPointerDereference
              | Some sp \<Rightarrow> Inr (s, [Disconnect sp]))
        else Inr (s, []))
       (\<lambda>s0.
          let s1 = (if headersFirstMode s0
                    then resetHeaderState env s0 (snd (BestSnapshot env)) (fst (BestSnapshot env))
                    else s0)
          in startSync env (s1\<lparr>syncPeer := None\<rparr>))"

definition handleStallSample :: "env \<Rightarrow> SyncManager \<Rightarrow> result" where
  "handleStallSample env s =
     (if shutdown s \<noteq> 0 then Inr (s, [])
      else
        (case syncPeer s of
           None \<Rightarrow> Inr (s, [])
         | Some sp \<Rightarrow>
            if now env - lastProgressTime s \<le> maxStallDuration then Inr (s, [])
            else
              (case map_of (peerStates s) sp of
                 None \<Rightarrow> Inr (s, [])
               | Some state \<Rightarrow>
                  updateSyncPeer env (clearRequestedState s state)
                    (shouldDCStalledSyncPeer env sp))))"

definition handleDonePeerMsg :: "env \<Rightarrow> SyncManager \<Rightarrow> peer \<Rightarrow> result" where
  "handleDonePeerMsg env s p =
     (case map_of (peerStates s) p of
        None \<Rightarrow> Inr (s, [])
      | Some state \<Rightarrow>
         let s1 = clearRequestedState (s\<lparr>peerStates := AList.delete p (peerStates s)\<rparr>) state
         in if Some p = syncPeer s1 then updateSyncPeer env s1 False else Inr (s1, []))"

subsection \<open>Transactions\<close>

definition handleTxMsg :: "env \<Rightarrow> SyncManager \<Rightarrow> peer \<Rightarrow> hash \<Rightarrow> result" where
  "handleTxMsg env s p txHash =
     (case map_of (peerStates s) p of
        None \<Rightarrow> Inr (s, [])
      | Some state \<Rightarrow>
         if txHash \<in> rejectedTxns s then Inr (s, [])
         else
           let res = ProcessTransaction env txHash;
               s1 = s\<lparr>peerStates :=
                       AList.update p
                         (state\<lparr>peerRequestedTxns := peerRequestedTxns state - {txHash}\<rparr>)
                         (peerStates s),
                     requestedTxns := requestedTxns s - {txHash}\<rparr>
           in case res of
                TxAccepted acceptedTxs \<Rightarrow>
                  Inr (s1, [MempoolProcessTransaction txHash p,
                            AnnounceNewTransactions acceptedTxs])
              | _ \<Rightarrow>
                  Inr (s1\<lparr>rejectedTxns :=
                            limitAdd (rangeSeed env (rejectedTxns s1)) (rejectedTxns s1) txHash
                              maxRejectedTxns\<rparr>,
                       [MempoolProcessTransaction txHash p, PushRejectMsg p CmdTx txHash]))"

subsection \<open>Blocks and ublocks\<close>

text \<open>
  \<open>handleBlockMsg\<close> and \<open>handleUBlockMsg\<close> are the same procedure but for the chain call,
  the messages sent, the CSN check (plain blocks only) and the periodic flush (ublocks only);
  \<open>ub\<close> tells which of the two runs.
\<close>

definition frontHeaderCheck :: "SyncManager \<Rightarrow> hash \<Rightarrow> error + (bool \<times> BehaviorFlags \<times> SyncManager)" where
  "frontHeaderCheck s blockHash =
     (if headersFirstMode s then
        (case headerList s of
           [] \<Rightarrow> Inr (False, BFNone, s)
         | firstNode # rest \<Rightarrow>
            if blockHash = nodeHash firstNode then
              (case nextCheckpoint s of
                 None \<Rightarrow> Inl NilPointerDereference
               | Some cp \<Rightarrow>
                  if nodeHash firstNode = cpHash cp then Inr (True, BFFastAdd, s)
                  else Inr (False, BFFastAdd, listRemoveFront s))
            else Inr (False, BFNone, s))
      else Inr (False, BFNone, s))"

definition removeRequestedBlock :: "SyncManager \<Rightarrow> peer \<Rightarrow> peerSyncState \<Rightarrow> hash \<Rightarrow> SyncManager" where
  "removeRequestedBlock s p state blockHash =
     s\<lparr>peerStates :=
         AList.update p
           (state\<lparr>peerRequestedBlocks := peerRequestedBlocks state - {blockHash}\<rparr>)
           (peerStates s),
       requestedBlocks := requestedBlocks s - {blockHash}\<rparr>"

definition pushGetBlocksOrUBlocks :: "bool \<Rightarrow> peer \<Rightarrow> hash list \<Rightarrow> hash \<Rightarrow> event" where
  "pushGetBlocksOrUBlocks ub p locator stopHash =
     (if ub then PushGetUBlocksMsg p locator stopHash else PushGetBlocksMsg p locator stopHash)"

text \<open>The part of the handlers after the block was processed without an error.\<close>

definition afterProcessBlock ::
  "env \<Rightarrow> bool \<Rightarrow> SyncManager \<Rightarrow> peer \<Rightarrow> hash \<Rightarrow> bool \<Rightarrow> bool \<Rightarrow> result" where
  "afterProcessBlock env ub s p blockHash isCheckpointBlock isOrphan =
     (let (s1, heightUpdate, blkHashUpdate, evs1) =
            (if isOrphan then
               (let (hu, bu) =
                      (if ShouldHaveSerializedBlockHeight env blockHash
                       then (case ExtractCoinbaseHeight env blockHash of
                               None \<Rightarrow> (0, None)
                             | Some cbHeight \<Rightarrow> (cbHeight, Some blockHash))
                       else (0, None))
                in (s, hu, bu,
                    (case LatestBlockLocator env of
                       None \<Rightarrow> []
                     | Some locator \<Rightarrow>
                         [pushGetBlocksOrUBlocks ub p locator (GetOrphanRoot env blockHash ub)])))
             else
               (s\<lparr>lastProgressTime :=
                    (if Some p = syncPeer s then now env else lastProgressTime s),
                  rejectedTxns := {}\<rparr>,
                fst (BestSnapshot env), Some (snd (BestSnapshot env)), []));
          evs2 = (case blkHashUpdate of
                    None \<Rightarrow> []
                  | Some bh \<Rightarrow>
                      if heightUpdate \<noteq> 0
                      then UpdateLastBlockHeight p heightUpdate #
                           (if isOrphan \<or> current env s1 then [UpdatePeerHeights bh heightUpdate p]
                            else [])
                      else [])
      in emit (evs1 @ evs2)
          (if \<not> headersFirstMode s1
           then Inr (s1, if ub then [FlushCachedState FlushPeriodic] else [])
           else if \<not> isCheckpointBlock then
             (if startHeader s1 \<noteq> None \<and>
                 (case map_of (peerStates s1) p of
                    None \<Rightarrow> False
                  | Some state \<Rightarrow> card (peerRequestedBlocks state) < minInFlightBlocks)
              then (if ub then fetchHeaderUBlocks env s1 else fetchHeaderBlocks env s1)
              else Inr (s1, []))
           else
             (case nextCheckpoint s1 of
                None \<Rightarrow> Inl NilPointerDereference
              | Some prevCp \<Rightarrow>
                 (let s2 = s1\<lparr>nextCheckpoint := findNextHeaderCheckpoint env (cpHeight prevCp)\<rparr>
                  in case nextCheckpoint s2 of
                       Some cp \<Rightarrow>
                         if PushGetHeadersMsgFails env p
                         then Inr (s2, [PushGetHeadersMsg p [cpHash prevCp] (cpHash cp)])
                         else (case syncPeer s2 of
                                 None \<Rightarrow> Inl NilPointerDereference
                               | Some sp \<Rightarrow>
                                   Inr (s2, [PushGetHeadersMsg p [cpHash prevCp] (cpHash cp)]))
                     | None \<Rightarrow>
                         Inr (listInit (s2\<lparr>headersFirstMode := False\<rparr>),
                              [pushGetBlocksOrUBlocks ub p [blockHash] zeroHash])))))"

definition handleBlockCommon :: "env \<Rightarrow> bool \<Rightarrow> SyncManager \<Rightarrow> peer \<Rightarrow> hash \<Rightarrow> result" where
  "handleBlockCommon env ub s p blockHash =
     (case map_of (peerStates s) p of
        None \<Rightarrow> Inr (s, [])
      | Some state \<Rightarrow>
         if blockHash \<notin> peerRequestedBlocks state \<and> chainParams s \<noteq> RegressionNetParams
         then Inr (s, [Disconnect p])
         else if \<not> ub \<and> utreexoCSN s then Inr (s, [])
         else
           (case frontHeaderCheck s blockHash of
              Inl e \<Rightarrow> Inl e
            | Inr (isCheckpointBlock, behaviorFlags, s1) \<Rightarrow>
               (let s2 = removeRequestedBlock s1 p state blockHash;
                    call = (if ub then ChainProcessUBlock blockHash behaviorFlags
                            else ChainProcessBlock blockHash behaviorFlags)
                in case (if ub then ProcessUBlock env blockHash behaviorFlags
                         else ProcessBlock env blockHash behaviorFlags) of
                     ProcessErr err \<Rightarrow>
                       if err = DatabaseErrCorruption then Inl DatabaseCorruption
                       else Inr (s2, [call,
                                      PushRejectMsg p (if ub then CmdUBlock else CmdBlock) blockHash])
                   | Processed isMainChain isOrphan \<Rightarrow>
                       emit [call]
                         (afterProcessBlock env ub s2 p blockHash isCheckpointBlock isOrphan))))"

definition handleBlockMsg :: "env \<Rightarrow> SyncManager \<Rightarrow> peer \<Rightarrow> hash \<Rightarrow> result" where
  "handleBlockMsg env s p blockHash = handleBlockCommon env False s p blockHash"

definition handleUBlockMsg :: "env \<Rightarrow> SyncManager \<Rightarrow> peer \<Rightarrow> hash \<Rightarrow> result" where
  "handleUBlockMsg env s p blockHash = handleBlockCommon env True s p blockHash"

subsection \<open>notfound\<close>

fun notFoundLoop :: "peer \<Rightarrow> InvVect list \<Rightarrow> SyncManager \<Rightarrow> SyncManager" where
  "notFoundLoop p [] s = s"
| "notFoundLoop p (iv # rest) s =
     (case map_of (peerStates s) p of
        None \<Rightarrow> s
      | Some state \<Rightarrow>
         notFoundLoop p rest
           (if ivType iv \<in> {InvTypeWitnessBlock, InvTypeBlock, InvTypeWitnessUBlock, InvTypeUBlock}
            then (if ivHash iv \<in> peerRequestedBlocks state
                  then removeRequestedBlock s p state (ivHash iv)
                  else s)
            else if ivType iv \<in> {InvTypeWitnessTx, InvTypeTx}
            then (if ivHash iv \<in> peerRequestedTxns state
                  then s\<lparr>peerStates :=
                           AList.update p
                             (state\<lparr>peerRequestedTxns := peerRequestedTxns state - {ivHash iv}\<rparr>)
                             (peerStates s),
                         requestedTxns := requestedTxns s - {ivHash iv}\<rparr>
                  else s)
            else s))"

definition handleNotFoundMsg :: "env \<Rightarrow> SyncManager \<Rightarrow> peer \<Rightarrow> InvVect list \<Rightarrow> result" where
  "handleNotFoundMsg env s p invList =
     (case map_of (peerStates s) p of
        None \<Rightarrow> Inr (s, [])
      | Some state \<Rightarrow> Inr (notFoundLoop p invList s, []))"

subsection \<open>Headers\<close>

record BlockHeader =
  headerBlockHash :: hash
  headerPrevBlock :: hash

datatype headersLoopResult =
    HeadersReturn result
  | HeadersDone SyncManager bool "hash option"

text \<open>
  Linking one header to the back of the header list, as both headers handlers do it:
  \<open>None\<close> when the list is empty or the header does not connect.
\<close>

definition linkHeader :: "SyncManager \<Rightarrow> BlockHeader \<Rightarrow> (SyncManager \<times> HeaderNode) option" where
  "linkHeader s blockHeader =
     (case headerList s of
        [] \<Rightarrow> None
      | _ \<Rightarrow>
         let prevNode = last (headerList s)
         in if nodeHash prevNode = headerPrevBlock blockHeader then
              (let node = \<lparr>nodeHeight = int32 (nodeHeight prevNode + 1),
                           nodeHash = headerBlockHash blockHeader\<rparr>;
                   s1 = listPushBack node s
               in Some (if startHeader s1 = None
                        then s1\<lparr>startHeader := Some (Attached (length (headerList s)))\<rparr>
                        else s1,
                        node))
            else None)"

fun headersLoop ::
  "peer \<Rightarrow> BlockHeader list \<Rightarrow> SyncManager \<Rightarrow> hash option \<Rightarrow> headersLoopResult" where
  "headersLoop p [] s finalHash = HeadersDone s False finalHash"
| "headersLoop p (blockHeader # rest) s finalHash =
     (case linkHeader s blockHeader of
        None \<Rightarrow> HeadersReturn (Inr (s, [Disconnect p]))
      | Some (s1, node) \<Rightarrow>
         (case nextCheckpoint s1 of
            None \<Rightarrow> HeadersReturn (Inl NilPointerDereference)
          | Some cp \<Rightarrow>
             if nodeHeight node = cpHeight cp then
               (if nodeHash node = cpHash cp
                then HeadersDone s1 True (Some (headerBlockHash blockHeader))
                else HeadersReturn (Inr (s1, [Disconnect p])))
             else headersLoop p rest s1 (Some (headerBlockHash blockHeader))))"

definition handleHeadersMsg :: "env \<Rightarrow> SyncManager \<Rightarrow> peer \<Rightarrow> BlockHeader list \<Rightarrow> result" where
  "handleHeadersMsg env s p headers =
     (case map_of (peerStates s) p of
        None \<Rightarrow> Inr (s, [])
      | Some state \<Rightarrow>
         if \<not> headersFirstMode s then Inr (s, [Disconnect p])
         else if length headers = 0 then Inr (s, [])
         else
           (case headersLoop p headers s None of
              HeadersReturn r \<Rightarrow> r
            | HeadersDone s1 receivedCheckpoint finalHash \<Rightarrow>
               if receivedCheckpoint then
                 (let s2 = listRemoveFront s1
                  in if utreexoCSN s2 then fetchHeaderUBlocks env s2 else fetchHeaderBlocks env s2)
               else
                 (case nextCheckpoint s1 of
                    None \<Rightarrow> Inl NilPointerDereference
                  | Some cp \<Rightarrow>
                     (case finalHash of
                        None \<Rightarrow> Inr (s1, [PushGetHeadersMsgNilLocator p (cpHash cp)])
                      | Some fh \<Rightarrow> Inr (s1, [PushGetHeadersMsg p [fh] (cpHash cp)])))))"

text \<open>
  \<open>handleOnlyHeadersMsg\<close> returns whether all headers up to the root to verify are there;
  the third component of the result is that value.
\<close>

datatype onlyHeadersLoopResult =
    OnlyHeadersReturn "error + SyncManager \<times> event list \<times> bool"
  | OnlyHeadersDone SyncManager bool "hash option"

fun onlyHeadersLoop ::
  "peer \<Rightarrow> BlockHeader list \<Rightarrow> SyncManager \<Rightarrow> bool \<Rightarrow> hash option \<Rightarrow> onlyHeadersLoopResult" where
  "onlyHeadersLoop p [] s receivedAllHeaders finalHash =
     OnlyHeadersDone s receivedAllHeaders finalHash"
| "onlyHeadersLoop p (blockHeader # rest) s receivedAllHeaders finalHash =
     (case linkHeader s blockHeader of
        None \<Rightarrow> OnlyHeadersReturn (Inr (s, [Disconnect p], False))
      | Some (s1, node) \<Rightarrow>
         (case utreexoRootToVerify s1 of
            None \<Rightarrow> OnlyHeadersReturn (Inl NilPointerDereference)
          | Some rt \<Rightarrow>
             onlyHeadersLoop p rest s1
               (if nodeHeight node = hintHeight rt then True else receivedAllHeaders)
               (Some (headerBlockHash blockHeader))))"

definition handleOnlyHeadersMsg ::
  "env \<Rightarrow> SyncManager \<Rightarrow> peer \<Rightarrow> BlockHeader list \<Rightarrow> error + SyncManager \<times> event list \<times> bool" where
  "handleOnlyHeadersMsg env s p headers =
     (case map_of (peerStates s) p of
        None \<Rightarrow> Inr (s, [], False)
      | Some state \<Rightarrow>
         if \<not> ProcessHeaders env (map headerBlockHash headers)
         then Inr (s, [ChainProcessHeaders (map headerBlockHash headers), Disconnect p], False)
         else
           (case onlyHeadersLoop p headers s False None of
              OnlyHeadersReturn r \<Rightarrow>
                (case r of
                   Inl e \<Rightarrow> Inl e
                 | Inr (s1, evs, fin) \<Rightarrow>
                     Inr (s1, ChainProcessHeaders (map headerBlockHash headers) # evs, fin))
            | OnlyHeadersDone s1 receivedAllHeaders finalHash \<Rightarrow>
               if receivedAllHeaders
               then Inr (s1, [ChainProcessHeaders (map headerBlockHash headers)], True)
               else
                 Inr (s1, [ChainProcessHeaders (map headerBlockHash headers),
                           (case finalHash of
                              None \<Rightarrow> PushGetHeadersMsgNilLocator p zeroHash
                            | Some fh \<Rightarrow> PushGetHeadersMsg p [fh] zeroHash)],
                      False)))"

subsection \<open>inv\<close>

fun lastBlockFrom :: "InvVect list \<Rightarrow> int" where
  "lastBlockFrom [] = - 1"
| "lastBlockFrom (iv # earlier) =
     (if ivType iv = InvTypeBlock then int (length earlier)
      else if ivType iv = InvTypeUBlock then int (length earlier)
      else lastBlockFrom earlier)"

text \<open>The index of the last block or ublock vector of the list, or \<open>-1\<close>.\<close>

definition lastBlockIndex :: "InvVect list \<Rightarrow> int" where
  "lastBlockIndex invVects = lastBlockFrom (rev invVects)"

definition enqueueRequest :: "SyncManager \<Rightarrow> peer \<Rightarrow> InvVect \<Rightarrow> SyncManager" where
  "enqueueRequest s p iv =
     (case map_of (peerStates s) p of
        None \<Rightarrow> s
      | Some state \<Rightarrow>
          s\<lparr>peerStates :=
              AList.update p (state\<lparr>requestQueue := requestQueue state @ [iv]\<rparr>) (peerStates s)\<rparr>)"

text \<open>
  What an already known block or ublock vector leads to: the events, and whether the
  iteration goes on with the rest of the body (\<open>True\<close>) or with the next vector.
\<close>

definition knownBlockInv :: "env \<Rightarrow> peer \<Rightarrow> int \<Rightarrow> nat \<Rightarrow> InvVect \<Rightarrow> bool \<Rightarrow> event list" where
  "knownBlockInv env p lastBlock i iv ub =
     (if IsKnownOrphan env (ivHash iv) ub then
        (case LatestBlockLocator env of
           None \<Rightarrow> []
         | Some locator \<Rightarrow>
             [pushGetBlocksOrUBlocks ub p locator (GetOrphanRoot env (ivHash iv) ub)])
      else if int i = lastBlock
        then [pushGetBlocksOrUBlocks ub p (BlockLocatorFromHash env (ivHash iv)) zeroHash]
      else [])"

text \<open>
  One iteration of the first loop of \<open>handleInvMsg\<close>; the first component tells whether
  the loop is left (\<open>break\<close>).
\<close>

definition invStep ::
  "env \<Rightarrow> peer \<Rightarrow> int \<Rightarrow> nat \<Rightarrow> InvVect \<Rightarrow> SyncManager \<Rightarrow> bool \<times> SyncManager \<times> event list" where
  "invStep env p lastBlock i iv s =
     (case ivType iv of
        InvTypeOther n \<Rightarrow> (False, s, [])
      | _ \<Rightarrow>
         if headersFirstMode s then (False, s, [AddKnownInventory p iv])
         else
           (let (haveInv, err) = haveInventory env iv
            in if err then (False, s, [AddKnownInventory p iv])
               else if \<not> haveInv then
                 (if ivType iv = InvTypeTx \<and> ivHash iv \<in> rejectedTxns s
                    then (False, s, [AddKnownInventory p iv])
                  else if \<not> IsWitnessEnabled env p \<and> ivType iv = InvTypeBlock
                    then (False, s, [AddKnownInventory p iv])
                  else (False, enqueueRequest s p iv, [AddKnownInventory p iv]))
               else if ivType iv = InvTypeBlock then
                 (if utreexoCSN s
                  then (\<not> IsKnownOrphan env (ivHash iv) True, s,
                        AddKnownInventory p iv # knownBlockInv env p lastBlock i iv True)
                  else (False, s,
                        AddKnownInventory p iv # knownBlockInv env p lastBlock i iv False))
               else if ivType iv = InvTypeUBlock
                 then (False, s, AddKnownInventory p iv # knownBlockInv env p lastBlock i iv True)
               else (False, s, [AddKnownInventory p iv])))"

fun invLoop ::
  "env \<Rightarrow> peer \<Rightarrow> int \<Rightarrow> nat \<Rightarrow> InvVect list \<Rightarrow> SyncManager \<Rightarrow> SyncManager \<times> event list" where
  "invLoop env p lastBlock i [] s = (s, [])"
| "invLoop env p lastBlock i (iv # rest) s =
     (let (brk, s1, evs) = invStep env p lastBlock i iv s
      in if brk then (s1, evs)
         else (let (s2, evs2) = invLoop env p lastBlock (Suc i) rest s1 in (s2, evs @ evs2)))"

text \<open>
  Registering a hash in a global map and in the per-peer map of \<open>p\<close>, both with
  \<open>limitAdd\<close>, as the second loop of \<open>handleInvMsg\<close> does.
\<close>

definition requestBlock :: "env \<Rightarrow> SyncManager \<Rightarrow> peer \<Rightarrow> hash \<Rightarrow> SyncManager" where
  "requestBlock env s p h =
     (let s1 = s\<lparr>requestedBlocks :=
                  limitAdd (rangeSeed env (requestedBlocks s)) (requestedBlocks s) h
                    (maxRequestedBlocks env)\<rparr>
      in case map_of (peerStates s1) p of
           None \<Rightarrow> s1
         | Some state \<Rightarrow>
             s1\<lparr>peerStates :=
                  AList.update p
                    (state\<lparr>peerRequestedBlocks :=
                       limitAdd (rangeSeed env (peerRequestedBlocks state))
                         (peerRequestedBlocks state) h (maxRequestedBlocks env)\<rparr>)
                    (peerStates s1)\<rparr>)"

definition requestTx :: "env \<Rightarrow> SyncManager \<Rightarrow> peer \<Rightarrow> hash \<Rightarrow> SyncManager" where
  "requestTx env s p h =
     (let s1 = s\<lparr>requestedTxns :=
                  limitAdd (rangeSeed env (requestedTxns s)) (requestedTxns s) h
                    (maxRequestedTxns env)\<rparr>
      in case map_of (peerStates s1) p of
           None \<Rightarrow> s1
         | Some state \<Rightarrow>
             s1\<lparr>peerStates :=
                  AList.update p
                    (state\<lparr>peerRequestedTxns :=
                       limitAdd (rangeSeed env (peerRequestedTxns state))
                         (peerRequestedTxns state) h (maxRequestedTxns env)\<rparr>)
                    (peerStates s1)\<rparr>)"

text \<open>
  The second loop of \<open>handleInvMsg\<close>: it returns the rest of the request queue, the state
  and the inventory list of the getdata message.
\<close>

fun drainLoop ::
  "env \<Rightarrow> peer \<Rightarrow> InvVect list \<Rightarrow> nat \<Rightarrow> SyncManager \<Rightarrow> InvVect list \<Rightarrow>
   InvVect list \<times> SyncManager \<times> InvVect list" where
  "drainLoop env p [] numRequested s gd = ([], s, gd)"
| "drainLoop env p (iv # queue) numRequested s gd =
     (let (n1, s1, gd1) =
        (if ivType iv \<in> {InvTypeWitnessBlock, InvTypeBlock} then
           (if ivHash iv \<notin> requestedBlocks s
            then (Suc numRequested, requestBlock env s p (ivHash iv),
                  gd @ [if IsWitnessEnabled env p then iv\<lparr>ivType := InvTypeWitnessBlock\<rparr> else iv])
            else (numRequested, s, gd))
         else if ivType iv \<in> {InvTypeWitnessUBlock, InvTypeUBlock} then
           (if ivHash iv \<notin> requestedBlocks s
            then (Suc numRequested, requestBlock env s p (ivHash iv),
                  gd @ [if IsWitnessEnabled env p then iv\<lparr>ivType := InvTypeWitnessUBlock\<rparr> else iv])
            else (numRequested, s, gd))
         else if ivType iv \<in> {InvTypeWitnessTx, InvTypeTx} then
           (if ivHash iv \<notin> requestedTxns s
            then (Suc numRequested, requestTx env s p (ivHash iv),
                  gd @ [if IsWitnessEnabled env p then iv\<lparr>ivType := InvTypeWitnessTx\<rparr> else iv])
            else (numRequested, s, gd))
         else (numRequested, s, gd))
      in if n1 \<ge> MaxInvPerMsg env then (queue, s1, gd1)
         else drainLoop env p queue n1 s1 gd1)"

definition drainRequestQueue :: "env \<Rightarrow> SyncManager \<Rightarrow> peer \<Rightarrow> SyncManager \<times> event list" where
  "drainRequestQueue env s p =
     (case map_of (peerStates s) p of
        None \<Rightarrow> (s, [])
      | Some state \<Rightarrow>
         (let (queue1, s1, gd) = drainLoop env p (requestQueue state) 0 s [];
              s2 = (case map_of (peerStates s1) p of
                      None \<Rightarrow> s1
                    | Some state1 \<Rightarrow>
                        s1\<lparr>peerStates :=
                             AList.update p (state1\<lparr>requestQueue := queue1\<rparr>)
                               (peerStates s1)\<rparr>)
          in (s2, if length gd > 0 then [QueueMessageGetData p gd] else [])))"

definition handleInvMsg :: "env \<Rightarrow> SyncManager \<Rightarrow> peer \<Rightarrow> InvVect list \<Rightarrow> result" where
  "handleInvMsg env s p invVects =
     (case map_of (peerStates s) p of
        None \<Rightarrow> Inr (s, [])
      | Some state \<Rightarrow>
         (let lastBlock = lastBlockIndex invVects;
              evs0 = (if lastBlock \<noteq> - 1 \<and> (Some p \<noteq> syncPeer s \<or> current env s)
                      then [UpdateLastAnnouncedBlock p (ivHash (invVects ! nat lastBlock))]
                      else [])
          in if Some p \<noteq> syncPeer s \<and> \<not> current env s then Inr (s, evs0)
             else
               (let evs1 = (if lastBlock \<noteq> - 1 \<and> current env s
                            then (case BlockHeightByHash env (ivHash (invVects ! nat lastBlock)) of
                                    None \<Rightarrow> []
                                  | Some blkHeight \<Rightarrow> [UpdateLastBlockHeight p blkHeight])
                            else []);
                    (s1, evs2) = invLoop env p lastBlock 0 invVects s;
                    (s2, evs3) = drainRequestQueue env s1 p
                in Inr (s2, evs0 @ evs1 @ evs2 @ evs3))))"

subsection \<open>The root-verify worker\<close>

text \<open>The loop of \<open>UtreexoViewpoint.Equal\<close> over the passed-in roots.\<close>

fun rootsLoop :: "hash list \<Rightarrow> hash list \<Rightarrow> bool" where
  "rootsLoop [] uViewRoots = True"
| "rootsLoop (root # rest) [] = False"
| "rootsLoop (root # rest) (u # us) = (if root \<noteq> u then False else rootsLoop rest us)"

definition Equal :: "hash list \<Rightarrow> hash list \<Rightarrow> bool" where
  "Equal uViewRoots compRoots =
     (if length uViewRoots \<noteq> length compRoots then False else rootsLoop compRoots uViewRoots)"

text \<open>
  \<open>uRootHandleUBlockMsg\<close> runs as a goroutine of its own; this is one run of it, on the
  state it finds. \<open>ProcessHeaderUBlock\<close> changes the accumulator view it is given: the
  environment answers with the roots of the changed view.
\<close>

definition uRootHandleUBlockMsg ::
  "env \<Rightarrow> SyncManager \<Rightarrow> peer \<Rightarrow> hash \<Rightarrow> int \<Rightarrow> result" where
  "uRootHandleUBlockMsg env s p blockHash ublockHeight =
     (case map_of (peerStates s) p of
        None \<Rightarrow> Inr (s, [Reply])
      | Some state \<Rightarrow>
         if blockHash \<notin> peerRequestedBlocks state \<and> chainParams s \<noteq> RegressionNetParams
         then Inr (s, [Disconnect p, Reply])
         else
           (let s1 = removeRequestedBlock s p state blockHash
            in case LookupNode env blockHash of
                 None \<Rightarrow> Inl LookupNodeFailed
               | Some blockHeight \<Rightarrow>
                  (let searchHeight = (case FindPreviousUtreexoRootHint env blockHeight of
                                         None \<Rightarrow> 0
                                       | Some uRootHint \<Rightarrow> hintHeight uRootHint)
                   in case map_of (uTreeMap s1) searchHeight of
                        None \<Rightarrow> Inl (UStateNotFound searchHeight)
                      | Some uState \<Rightarrow>
                         (case ProcessHeaderUBlock env blockHash (uView uState) of
                            None \<Rightarrow> Inl ProcessHeaderUBlockFailed
                          | Some (mainChain, roots) \<Rightarrow>
                             if \<not> mainChain then Inl NotMainChain
                             else
                               (let uState1 = uState\<lparr>uView := roots\<rparr>;
                                    s2 = s1\<lparr>uTreeMap :=
                                            AList.update searchHeight uState1 (uTreeMap s1)\<rparr>
                                in if ublockHeight = hintHeight (rootToVerify uState1) then
                                     Inr (s2\<lparr>uTreeMap := AList.delete searchHeight (uTreeMap s2)\<rparr>,
                                          [ChainProcessHeaderUBlock blockHash,
                                           QueueProcessedURootHint
                                             \<lparr>Validated =
                                                Equal (uView uState1)
                                                  (hintRoots (rootToVerify uState1)),
                                              URootHintHeight = ublockHeight\<rparr>,
                                           Reply])
                                   else
                                     (let s3 = s2\<lparr>lastProgressTime :=
                                                  (if Some p = syncPeer s2 then now env
                                                   else lastProgressTime s2),
                                                rejectedTxns := {}\<rparr>;
                                          heightUpdate = fst (BestSnapshot env)
                                      in Inr (s3,
                                           ChainProcessHeaderUBlock blockHash #
                                           (if heightUpdate \<noteq> 0
                                            then UpdateLastBlockHeight p heightUpdate #
                                                 (if current env s3
                                                  then [UpdatePeerHeights (snd (BestSnapshot env))
                                                          heightUpdate p]
                                                  else [])
                                            else []) @ [Reply])))))))"

subsection \<open>The event loops\<close>

datatype msg =
    newPeerMsg peer
  | txMsg peer hash
  | blockMsg peer hash
  | ublockMsg peer hash int
  | invMsg peer "InvVect list"
  | headersMsg peer "BlockHeader list"
  | notFoundMsg peer "InvVect list"
  | donePeerMsg peer
  | getSyncPeerMsg
  | processBlockMsg hash BehaviorFlags
  | processUBlockMsg hash BehaviorFlags
  | isCurrentMsg
  | pauseMsg
  | uRootHintMsg UtreexoRootHint
  | processedURootHintMsg ProcessedURootHint
  | otherMsg

text \<open>
  What a \<open>select\<close> of a loop receives: a message of the message channel, a tick of the
  stall ticker, or the closed quit channel. Each comes with the environment of its handling.
\<close>

datatype input = Message msg | StallTick | Quit

definition replySyncPeerID :: "env \<Rightarrow> SyncManager \<Rightarrow> result" where
  "replySyncPeerID env s =
     Inr (s, [ReplySyncPeerID (case syncPeer s of None \<Rightarrow> 0 | Some sp \<Rightarrow> PeerID env sp)])"

definition replyProcessBlock :: "processResult \<Rightarrow> event list" where
  "replyProcessBlock r =
     (case r of
        ProcessErr err \<Rightarrow> [ReplyProcessBlock False (Some err), ReplyProcessBlock False None]
      | Processed isMainChain isOrphan \<Rightarrow> [ReplyProcessBlock isOrphan None])"

definition blockHandlerMsg :: "env \<Rightarrow> SyncManager \<Rightarrow> msg \<Rightarrow> result" where
  "blockHandlerMsg env s m =
     (case m of
        newPeerMsg p \<Rightarrow> handleNewPeerMsg env s p
      | txMsg p txHash \<Rightarrow> andThen (handleTxMsg env s p txHash) (\<lambda>s1. Inr (s1, [Reply]))
      | blockMsg p blockHash \<Rightarrow>
          andThen (handleBlockMsg env s p blockHash) (\<lambda>s1. Inr (s1, [Reply]))
      | ublockMsg p blockHash height \<Rightarrow>
          andThen (handleUBlockMsg env s p blockHash) (\<lambda>s1. Inr (s1, [Reply]))
      | invMsg p invVects \<Rightarrow> handleInvMsg env s p invVects
      | headersMsg p headers \<Rightarrow> handleHeadersMsg env s p headers
      | notFoundMsg p invList \<Rightarrow> handleNotFoundMsg env s p invList
      | donePeerMsg p \<Rightarrow> handleDonePeerMsg env s p
      | getSyncPeerMsg \<Rightarrow> replySyncPeerID env s
      | processBlockMsg blockHash flags \<Rightarrow>
          Inr (s, ChainProcessBlock blockHash flags #
                  replyProcessBlock (ProcessBlock env blockHash flags))
      | processUBlockMsg blockHash flags \<Rightarrow>
          Inr (s, ChainProcessUBlock blockHash flags #
                  replyProcessBlock (ProcessUBlock env blockHash flags))
      | isCurrentMsg \<Rightarrow> Inr (s, [ReplyIsCurrent (current env s)])
      | pauseMsg \<Rightarrow> Inr (s, [])
      | _ \<Rightarrow> Inr (s, []))"

text \<open>
  A loop that has no input left waits in its \<open>select\<close>: it has not signalled \<open>wg.Done()\<close>.
\<close>

fun blockHandler :: "(env \<times> input) list \<Rightarrow> SyncManager \<Rightarrow> result" where
  "blockHandler [] s = Inr (s, [])"
| "blockHandler ((env, inp) # rest) s =
     (case inp of
        Message m \<Rightarrow> andThen (blockHandlerMsg env s m) (blockHandler rest)
      | StallTick \<Rightarrow> andThen (handleStallSample env s) (blockHandler rest)
      | Quit \<Rightarrow>
          Inr (s, (if \<not> utreexoRootVerifyMode s then [FlushCachedState FlushRequired] else [])
                  @ [WgDone]))"

definition headerHandlerMsg ::
  "env \<Rightarrow> SyncManager \<Rightarrow> msg \<Rightarrow> error + SyncManager \<times> event list \<times> bool" where
  "headerHandlerMsg env s m =
     (let cont = (\<lambda>r. case r of Inl e \<Rightarrow> Inl e | Inr (s1, evs) \<Rightarrow> Inr (s1, evs, False))
      in case m of
           newPeerMsg p \<Rightarrow> cont (handleNewPeerMsg env s p)
         | headersMsg p headers \<Rightarrow> handleOnlyHeadersMsg env s p headers
         | notFoundMsg p invList \<Rightarrow> cont (handleNotFoundMsg env s p invList)
         | donePeerMsg p \<Rightarrow> cont (handleDonePeerMsg env s p)
         | getSyncPeerMsg \<Rightarrow> cont (replySyncPeerID env s)
         | isCurrentMsg \<Rightarrow> Inr (s, [ReplyIsCurrent (current env s)], False)
         | pauseMsg \<Rightarrow> Inr (s, [], False)
         | _ \<Rightarrow> Inr (s, [], False))"

fun headerHandler :: "(env \<times> input) list \<Rightarrow> SyncManager \<Rightarrow> result" where
  "headerHandler [] s = Inr (s, [])"
| "headerHandler ((env, inp) # rest) s =
     (case inp of
        Message m \<Rightarrow>
          (case headerHandlerMsg env s m of
             Inl e \<Rightarrow> Inl e
           | Inr (s1, evs, finished) \<Rightarrow>
               if finished then Inr (s1, evs @ [DoneSend, WgDone])
               else emit evs (headerHandler rest s1))
      | StallTick \<Rightarrow> andThen (handleStallSample env s) (headerHandler rest)
      | Quit \<Rightarrow> Inr (s, [WgDone]))"

definition GenUtreexoViewpoint :: "env \<Rightarrow> UtreexoRootHint option \<Rightarrow> hash list option" where
  "GenUtreexoViewpoint env rootHint =
     (case rootHint of None \<Rightarrow> Some [] | Some hint \<Rightarrow> deserializeUtreexoView env hint)"

definition handleURootHintMsg :: "env \<Rightarrow> SyncManager \<Rightarrow> UtreexoRootHint \<Rightarrow> result" where
  "handleURootHintMsg env s hint =
     (let startURoot = FindPreviousUtreexoRootHint env (hintHeight hint)
      in case GenUtreexoViewpoint env startURoot of
           None \<Rightarrow> Inl GenUtreexoViewpointFailed
         | Some startUView \<Rightarrow>
            (let startHeight = (case startURoot of None \<Rightarrow> 0 | Some r \<Rightarrow> hintHeight r);
                 s1 = s\<lparr>uTreeMap :=
                         AList.update startHeight
                           \<lparr>uView = startUView, startRoot = startURoot, rootToVerify = hint\<rparr>
                           (uTreeMap s)\<rparr>
             in ValidateParallelUtreexoRoot env s1 startHeight (hintHeight hint)))"

definition uRootHintVerifyHandlerMsg :: "env \<Rightarrow> SyncManager \<Rightarrow> msg \<Rightarrow> result" where
  "uRootHintVerifyHandlerMsg env s m =
     (case m of
        uRootHintMsg hint \<Rightarrow> handleURootHintMsg env s hint
      | newPeerMsg p \<Rightarrow> handleNewPeerMsg env s p
      | ublockMsg p blockHash height \<Rightarrow> uRootHandleUBlockMsg env s p blockHash height
      | invMsg p invVects \<Rightarrow> handleInvMsg env s p invVects
      | notFoundMsg p invList \<Rightarrow> handleNotFoundMsg env s p invList
      | donePeerMsg p \<Rightarrow> handleDonePeerMsg env s p
      | processedURootHintMsg r \<Rightarrow> Inr (s, [VerifiedSend r])
      | getSyncPeerMsg \<Rightarrow> replySyncPeerID env s
      | isCurrentMsg \<Rightarrow> Inr (s, [ReplyIsCurrent (current env s)])
      | pauseMsg \<Rightarrow> Inr (s, [])
      | _ \<Rightarrow> Inr (s, []))"

fun uRootHintVerifyHandler :: "(env \<times> input) list \<Rightarrow> SyncManager \<Rightarrow> result" where
  "uRootHintVerifyHandler [] s = Inr (s, [])"
| "uRootHintVerifyHandler ((env, inp) # rest) s =
     (case inp of
        Message m \<Rightarrow> andThen (uRootHintVerifyHandlerMsg env s m) (uRootHintVerifyHandler rest)
      | StallTick \<Rightarrow> andThen (handleStallSample env s) (uRootHintVerifyHandler rest)
      | Quit \<Rightarrow> Inr (s, [WgDone]))"

subsection \<open>New\<close>

record Config =
  cfgChainParams :: net
  cfgDisableCheckpoints :: bool
  cfgUtreexoCSN :: bool
  cfgUtreexoMN :: bool
  cfgUtreexoWN :: bool
  cfgUtreexoRootVerifyMode :: bool

definition New :: "env \<Rightarrow> Config \<Rightarrow> SyncManager" where
  "New env config =
     (let sm = \<lparr>shutdown = 0, chainParams = cfgChainParams config,
                rejectedTxns = {}, requestedTxns = {}, requestedBlocks = {},
                syncPeer = None, peerStates = [], lastProgressTime = 0,
                headersFirstMode = False, headerList = [], startHeader = None,
                nextCheckpoint = None,
                utreexoCSN = cfgUtreexoCSN config, utreexoMN = cfgUtreexoMN config,
                utreexoWN = cfgUtreexoWN config,
                utreexoRootVerifyMode = cfgUtreexoRootVerifyMode config,
                utreexoRootToVerify = None, utreexoStartRoot = None,
                newSyncNum = 0, uTreeMap = []\<rparr>;
          best = BestSnapshot env
      in if \<not> cfgDisableCheckpoints config then
           (let sm1 = sm\<lparr>nextCheckpoint := findNextHeaderCheckpoint env (fst best)\<rparr>
            in if nextCheckpoint sm1 \<noteq> None then resetHeaderState env sm1 (snd best) (fst best)
               else sm1)
         else if utreexoRootVerifyMode sm
           then listPushBack \<lparr>nodeHeight = fst best, nodeHash = snd best\<rparr> sm
         else sm)"

subsection \<open>Concrete environments and states\<close>

text \<open>
  A main-network node at height 100 whose chain is current, with no checkpoints ahead, and
  collaborators that know no inventory and accept what they are given.
\<close>

definition exEnv :: env where
  "exEnv =
     \<lparr>MaxInvPerMsg = 50000, now = 1000000000000, randSource = 0, rangeSeed = (\<lambda>m. 0),
      IsDeploymentActive = (True, False), BestSnapshot = (100, 1100),
      LatestBlockLocator = Some [1100], BlockLocatorFromHash = (\<lambda>h. [h]),
      Checkpoints = [], IsCurrent = True,
      HaveBlock = (\<lambda>h. (False, False)), HaveUBlock = (\<lambda>h. (False, False)),
      HaveTransaction = (\<lambda>h. False), FetchUtxoEntry = (\<lambda>h i. UtxoNil),
      IsKnownOrphan = (\<lambda>h ub. False), GetOrphanRoot = (\<lambda>h ub. h),
      BlockHeightByHash = (\<lambda>h. None),
      ProcessBlock = (\<lambda>h fl. Processed True False),
      ProcessUBlock = (\<lambda>h fl. Processed True False),
      ProcessHeaderUBlock = (\<lambda>h roots. Some (True, roots @ [h])),
      ProcessHeaders = (\<lambda>hs. True),
      LookupNode = (\<lambda>h. Some (int h - 1000)),
      FindPreviousUtreexoRootHint = (\<lambda>height. None),
      deserializeUtreexoView = (\<lambda>hint. Some (hintRoots hint)),
      ShouldHaveSerializedBlockHeight = (\<lambda>h. True),
      ExtractCoinbaseHeight = (\<lambda>h. Some (int h - 1000)),
      ProcessTransaction = (\<lambda>h. if h < 500 then TxAccepted [h] else TxRuleError),
      LastBlock = (\<lambda>p. 100 + int p), StartingHeight = (\<lambda>p. 100),
      IsWitnessEnabled = (\<lambda>p. True), Services = (\<lambda>p. {SFNodeNetwork}),
      AddrHost = (\<lambda>p. Some ''10.0.0.1''), PushGetHeadersMsgFails = (\<lambda>p. False),
      PeerID = (\<lambda>p. int p)\<rparr>"

definition exConfig :: Config where
  "exConfig =
     \<lparr>cfgChainParams = MainNetParams, cfgDisableCheckpoints = False, cfgUtreexoCSN = False,
      cfgUtreexoMN = False, cfgUtreexoWN = False, cfgUtreexoRootVerifyMode = False\<rparr>"

text \<open>
  Peer 1 is the sync peer and was asked for block 1101 and transaction 601; peer 2 is
  connected and was asked for nothing.
\<close>

definition exState :: SyncManager where
  "exState =
     (New exEnv exConfig)
       \<lparr>requestedTxns := {601}, requestedBlocks := {1101}, syncPeer := Some 1,
        peerStates :=
          [(1, \<lparr>syncCandidate = True, requestQueue = [],
                peerRequestedTxns = {601}, peerRequestedBlocks = {1101}\<rparr>),
           (2, \<lparr>syncCandidate = True, requestQueue = [],
                peerRequestedTxns = {}, peerRequestedBlocks = {}\<rparr>)],
        lastProgressTime := 999000000000\<rparr>"

text \<open>
  A root-verify state: the range starting at height 0 is being verified against the root
  hint of height 101, whose roots are what the accumulator has after ublock 1101.
\<close>

definition exVerifyState :: SyncManager where
  "exVerifyState =
     exState\<lparr>utreexoRootVerifyMode := True,
             uTreeMap := [(0, \<lparr>uView = [], startRoot = None,
                               rootToVerify = \<lparr>hintHeight = 101, hintRoots = [1101]\<rparr>\<rparr>)]\<rparr>"

subsection \<open>What the fetch functions leave alone\<close>

text \<open>
  The fetch functions write \<open>requestedBlocks\<close>, \<open>peerStates\<close> and \<open>startHeader\<close> only;
  \<open>fetchFrame\<close> is the rest of the state.
\<close>

definition fetchFrame :: "SyncManager \<Rightarrow> SyncManager" where
  "fetchFrame s = s\<lparr>requestedBlocks := {}, peerStates := [], startHeader := None\<rparr>"


text \<open>The state \<open>exState\<close> after transaction 777 was rejected.\<close>

definition exRejected :: SyncManager where
  "exRejected = exState\<lparr>rejectedTxns := {777}\<rparr>"

subsection \<open>Kinds of events\<close>

text \<open>The requests that choosing a sync peer can send.\<close>

definition syncRequestEvent :: "event \<Rightarrow> bool" where
  "syncRequestEvent ev =
     (case ev of
        PushGetHeadersMsg p l h \<Rightarrow> True
      | PushGetBlocksMsg p l h \<Rightarrow> True
      | PushGetUBlocksMsg p l h \<Rightarrow> True
      | QueueMessageGetData p gd \<Rightarrow> True
      | QueueURootHint hint \<Rightarrow> True
      | _ \<Rightarrow> False)"


text \<open>
  An environment in which the last progress of \<open>exState\<close> is more than three minutes ago,
  and \<open>exState\<close> while the manager is shutting down.
\<close>

definition exLate :: env where
  "exLate = exEnv\<lparr>now := 2000000000000\<rparr>"

definition exShutdown :: SyncManager where
  "exShutdown = exState\<lparr>shutdown := 1\<rparr>"

section \<open>Properties\<close>

lemma rangeFirst_in: "finite m \<Longrightarrow> rangeFirst seed m = Some x \<Longrightarrow> x \<in> m"
proof -
  assume fin: "finite m" and r: "rangeFirst seed m = Some x"
  from r have ne: "m \<noteq> {}" by (auto simp: rangeFirst_def split: if_splits)
  with fin have "0 < card m" by (simp add: card_gt_0_iff)
  then have "seed mod card m < length (sorted_list_of_set m)" by simp
  then have "sorted_list_of_set m ! (seed mod card m) \<in> set (sorted_list_of_set m)"
    by (rule nth_mem)
  with fin r ne show "x \<in> m" by (simp add: rangeFirst_def)
qed

lemma rangeFirst_None: "rangeFirst seed m = None \<longleftrightarrow> m = {}"
  by (simp add: rangeFirst_def)

lemma limitAdd_finite: "finite m \<Longrightarrow> finite (limitAdd seed m h limit)"
  by (simp add: limitAdd_def Let_def split: option.splits)

lemma limitAdd_mem: "h \<in> limitAdd seed m h limit"
  by (simp add: limitAdd_def Let_def)

lemma limitAdd_card:
  assumes fin: "finite m" and le: "int (card m) \<le> limit" and pos: "0 < limit"
  shows "int (card (limitAdd seed m h limit)) \<le> limit"
proof (cases "int (card m) + 1 > limit")
  case False
  then have "limitAdd seed m h limit = insert h m" by (simp add: limitAdd_def)
  moreover have "card (insert h m) \<le> card m + 1" using fin by (simp add: card_insert_if)
  ultimately show ?thesis using False by simp
next
  case True
  show ?thesis
  proof (cases "rangeFirst seed m")
    case None
    then have "m = {}" by (simp add: rangeFirst_None)
    then have "limitAdd seed m h limit = {h}" using True None by (simp add: limitAdd_def)
    then show ?thesis using pos by simp
  next
    case (Some x)
    then have xin: "x \<in> m" using fin by (rule rangeFirst_in[rotated])
    have eq: "limitAdd seed m h limit = insert h (m - {x})"
      using True Some by (simp add: limitAdd_def)
    have "card (m - {x}) = card m - 1" using fin xin by simp
    moreover have "0 < card m" using fin xin by (auto simp: card_gt_0_iff)
    moreover have "card (insert h (m - {x})) \<le> card (m - {x}) + 1"
      using fin by (simp add: card_insert_if)
    ultimately show ?thesis using eq le by simp
  qed
qed

lemma limitAddSeq_finite: "finite m \<Longrightarrow> finite (limitAddSeq m xs limit)"
  by (induction m xs limit rule: limitAddSeq.induct) (simp_all add: limitAdd_finite)

lemma limitAddSeq_card:
  "finite m \<Longrightarrow> int (card m) \<le> limit \<Longrightarrow> 0 < limit \<Longrightarrow>
   int (card (limitAddSeq m xs limit)) \<le> limit"
  by (induction m xs limit rule: limitAddSeq.induct)
     (simp_all add: limitAdd_finite limitAdd_card)

lemma limitAddSeq_last:
  "xs \<noteq> [] \<Longrightarrow> snd (last xs) \<in> limitAddSeq m xs limit"
proof (induction m xs limit rule: limitAddSeq.induct)
  case (1 m limit)
  then show ?case by simp
next
  case (2 m seed h rest limit)
  then show ?case by (cases rest) (simp_all add: limitAdd_mem)
qed

text \<open>
  C3. For every (finite) map \<open>m\<close>, hash \<open>h\<close> and limit \<open>L > 0\<close> with \<open>|m| \<le> L\<close>,
  after \<open>limitAdd(m, h, L)\<close> the map contains \<open>h\<close> and has at most \<open>L\<close> entries, whichever
  entry the iteration evicts; hence after any finite sequence of such calls with the same
  limit, starting from the empty map, the map has at most \<open>L\<close> entries and contains the
  hash inserted last.
\<close>

theorem limitAdd_bounded:
  assumes "0 < L"
  shows "(\<forall>m h seed. finite m \<and> int (card m) \<le> L \<longrightarrow>
            h \<in> limitAdd seed m h L \<and> int (card (limitAdd seed m h L)) \<le> L) \<and>
         (\<forall>xs. int (card (limitAddSeq {} xs L)) \<le> L \<and>
            (xs \<noteq> [] \<longrightarrow> snd (last xs) \<in> limitAddSeq {} xs L))"
  using assms by (simp add: limitAdd_mem limitAdd_card limitAddSeq_card limitAddSeq_last)

theorem limitAdd_bounded_witness:
  "(0::int) < 2 \<and> finite {1, 2::nat} \<and> int (card {1, 2::nat}) \<le> 2 \<and>
   limitAdd 7 {1, 2} 3 2 = {1, 3} \<and>
   3 \<in> limitAdd 7 {1, 2} 3 2 \<and> int (card (limitAdd 7 {1, 2} 3 2)) \<le> 2 \<and>
   limitAddSeq {} [(0, 1), (5, 2), (7, 3)] 2 = {1, 3} \<and>
   int (card (limitAddSeq {} [(0, 1), (5, 2), (7, 3)] 2)) \<le> 2 \<and>
   snd (last [(0::nat, 1::nat), (5, 2), (7, 3)]) \<in> limitAddSeq {} [(0, 1), (5, 2), (7, 3)] 2"
proof -
  let ?xs = "[(0::nat, 1::nat), (5, 2), (7, 3)]"
  have pos: "(0::int) < 2" by simp
  have e1: "limitAdd 7 {1, 2} 3 2 = {1, 3}" by code_simp
  have e2: "limitAddSeq {} ?xs 2 = {1, 3}" by code_simp
  have pre: "finite {1, 2::nat} \<and> int (card {1, 2::nat}) \<le> 2" by simp
  note th = limitAdd_bounded [OF pos]
  have "finite {1, 2::nat} \<and> int (card {1, 2::nat}) \<le> 2 \<longrightarrow>
      3 \<in> limitAdd 7 {1, 2} 3 2 \<and> int (card (limitAdd 7 {1, 2} 3 2)) \<le> 2"
    by (rule th [THEN conjunct1, THEN spec, THEN spec, THEN spec])
  from this pre
  have a: "3 \<in> limitAdd 7 {1, 2} 3 2 \<and> int (card (limitAdd 7 {1, 2} 3 2)) \<le> 2"
    by (rule mp)
  have b: "int (card (limitAddSeq {} ?xs 2)) \<le> 2 \<and>
     (?xs \<noteq> [] \<longrightarrow> snd (last ?xs) \<in> limitAddSeq {} ?xs 2)"
    by (rule th [THEN conjunct2, THEN spec])
  have ne: "?xs \<noteq> []" by simp
  from b [THEN conjunct2] ne have c: "snd (last ?xs) \<in> limitAddSeq {} ?xs 2"
    by (rule mp)
  show ?thesis
    apply (intro conjI)
    apply (rule pos)
    apply simp
    apply simp
    apply (rule e1)
    apply (rule a [THEN conjunct1])
    apply (rule a [THEN conjunct2])
    apply (rule e2)
    apply (rule b [THEN conjunct1])
    apply (rule c)
    done
qed


subsection \<open>Messages of unknown peers\<close>

text \<open>
  C10. A tx, block, ublock, inv, headers or notfound message whose sending peer has no entry
  in \<open>peerStates\<close> is dropped: the handler returns the manager state as it was, and no call
  to the peer, the chain or the mempool is made. For the handlers of the headers-only and
  root-verify loops the same holds (the worker only signals the reply channel).
\<close>

theorem unknown_peer_dropped:
  assumes "map_of (peerStates s) p = None"
  shows "handleTxMsg env s p h = Inr (s, []) \<and>
         handleBlockMsg env s p h = Inr (s, []) \<and>
         handleUBlockMsg env s p h = Inr (s, []) \<and>
         handleInvMsg env s p invVects = Inr (s, []) \<and>
         handleHeadersMsg env s p headers = Inr (s, []) \<and>
         handleNotFoundMsg env s p invVects = Inr (s, []) \<and>
         handleOnlyHeadersMsg env s p headers = Inr (s, [], False) \<and>
         uRootHandleUBlockMsg env s p h height = Inr (s, [Reply])"
  using assms
  by (simp add: handleTxMsg_def handleBlockMsg_def handleUBlockMsg_def handleBlockCommon_def
      handleInvMsg_def handleHeadersMsg_def handleNotFoundMsg_def handleOnlyHeadersMsg_def
      uRootHandleUBlockMsg_def)

theorem unknown_peer_dropped_witness:
  "map_of (peerStates exState) 7 = None \<and>
   handleTxMsg exEnv exState 7 601 = Inr (exState, []) \<and>
   handleBlockMsg exEnv exState 7 1101 = Inr (exState, []) \<and>
   handleUBlockMsg exEnv exState 7 1101 = Inr (exState, []) \<and>
   handleInvMsg exEnv exState 7 [\<lparr>ivType = InvTypeBlock, ivHash = 1102\<rparr>] = Inr (exState, []) \<and>
   handleHeadersMsg exEnv exState 7 [\<lparr>headerBlockHash = 1101, headerPrevBlock = 1100\<rparr>]
     = Inr (exState, []) \<and>
   handleNotFoundMsg exEnv exState 7 [\<lparr>ivType = InvTypeBlock, ivHash = 1102\<rparr>]
     = Inr (exState, []) \<and>
   handleOnlyHeadersMsg exEnv exState 7 [\<lparr>headerBlockHash = 1101, headerPrevBlock = 1100\<rparr>]
     = Inr (exState, [], False) \<and>
   uRootHandleUBlockMsg exEnv exState 7 1101 101 = Inr (exState, [Reply])"
proof -
  have unknown: "map_of (peerStates exState) 7 = None"
    by (simp add: exState_def)
  from unknown unknown_peer_dropped [OF unknown] show ?thesis by simp
qed

subsection \<open>Plain blocks: unrequested blocks and CSN mode\<close>

lemmas ex_defs = exState_def exEnv_def exConfig_def New_def findNextHeaderCheckpoint_def

text \<open>
  C6. A plain block with hash \<open>h\<close> from a known peer \<open>p\<close>: if \<open>h\<close> is not in the requested
  blocks of \<open>p\<close> and the network is not the regression network, the handler disconnects
  \<open>p\<close> and does nothing else (nothing is submitted to the chain); in CSN mode the handler
  submits nothing to the chain and leaves the state as it is, whether the block was
  requested or not, and it disconnects only in the former case, that of the unrequested block.
\<close>

theorem plain_block_gates:
  assumes "map_of (peerStates s) p = Some state"
  shows "(h \<notin> peerRequestedBlocks state \<and> chainParams s \<noteq> RegressionNetParams \<longrightarrow>
            handleBlockMsg env s p h = Inr (s, [Disconnect p])) \<and>
         (utreexoCSN s \<longrightarrow>
            handleBlockMsg env s p h =
              Inr (s, if h \<notin> peerRequestedBlocks state \<and> chainParams s \<noteq> RegressionNetParams
                      then [Disconnect p] else []))"
  using assms by (simp add: handleBlockMsg_def handleBlockCommon_def)

theorem plain_block_gates_witness:
  "map_of (peerStates exState) 2 =
     Some \<lparr>syncCandidate = True, requestQueue = [], peerRequestedTxns = {},
           peerRequestedBlocks = {}\<rparr> \<and>
   handleBlockMsg exEnv exState 2 1101 = Inr (exState, [Disconnect 2]) \<and>
   map_of (peerStates (exState\<lparr>utreexoCSN := True\<rparr>)) 1 =
     Some \<lparr>syncCandidate = True, requestQueue = [], peerRequestedTxns = {601},
           peerRequestedBlocks = {1101}\<rparr> \<and>
   handleBlockMsg exEnv (exState\<lparr>utreexoCSN := True\<rparr>) 1 1101
     = Inr (exState\<lparr>utreexoCSN := True\<rparr>, [])"
proof -
  have k2: "map_of (peerStates exState) 2 =
     Some \<lparr>syncCandidate = True, requestQueue = [], peerRequestedTxns = {},
           peerRequestedBlocks = {}\<rparr>"
    by (simp add: exState_def)
  have k1: "map_of (peerStates (exState\<lparr>utreexoCSN := True\<rparr>)) 1 =
     Some \<lparr>syncCandidate = True, requestQueue = [], peerRequestedTxns = {601},
           peerRequestedBlocks = {1101}\<rparr>"
    by (simp add: exState_def)
  have net: "chainParams exState \<noteq> RegressionNetParams"
    by (simp add: ex_defs)
  from plain_block_gates [OF k2, of 1101 exEnv] net
  have a: "handleBlockMsg exEnv exState 2 1101 = Inr (exState, [Disconnect 2])" by simp
  from plain_block_gates [OF k1, of 1101 exEnv]
  have b: "handleBlockMsg exEnv (exState\<lparr>utreexoCSN := True\<rparr>) 1 1101
     = Inr (exState\<lparr>utreexoCSN := True\<rparr>, [])" by simp
  from k2 a k1 b show ?thesis by blast
qed

subsection \<open>The root-verify worker\<close>

lemma rootsLoop_eq: "length a = length b \<Longrightarrow> rootsLoop a b \<longleftrightarrow> a = b"
  by (induction a b rule: rootsLoop.induct) auto

lemma Equal_iff: "Equal uViewRoots compRoots \<longleftrightarrow> uViewRoots = compRoots"
  by (auto simp: Equal_def rootsLoop_eq)

text \<open>
  C2, as stated, fails: a ublock that the peer was not asked for, on the main network, whose
  range-start key (0) has no entry in \<open>uTreeMap\<close>, makes the worker disconnect the peer and
  return; it does not panic.
\<close>

theorem worker_unrequested_no_panic:
  "LookupNode exEnv 1105 = Some 105 \<and>
   FindPreviousUtreexoRootHint exEnv 105 = None \<and>
   map_of (uTreeMap exState) 0 = None \<and>
   uRootHandleUBlockMsg exEnv exState 2 1105 105 = Inr (exState, [Disconnect 2, Reply])"
  by (simp add: uRootHandleUBlockMsg_def ex_defs)

text \<open>
  C2, amended. For a ublock of a known peer that was requested from that peer (or on the
  regression network) and whose node lookup succeeds, let \<open>k\<close> be the range-start key. If
  \<open>uTreeMap\<close> has no entry for \<open>k\<close>, the worker panics. If it has one, \<open>ProcessHeaderUBlock\<close>
  succeeds on the main chain and the ublock's height is the height of the target root hint,
  the worker reports \<open>{validated, height}\<close> with that height, where \<open>validated\<close> is true
  exactly when the roots of the range's accumulator view equal the roots of the target
  hint, and it removes the entry of the range from \<open>uTreeMap\<close>.
\<close>

theorem worker_report_or_panic:
  assumes known: "map_of (peerStates s) p = Some state"
      and asked: "h \<in> peerRequestedBlocks state \<or> chainParams s = RegressionNetParams"
      and node: "LookupNode env h = Some blockHeight"
      and key: "k = (case FindPreviousUtreexoRootHint env blockHeight of
                       None \<Rightarrow> 0 | Some r \<Rightarrow> hintHeight r)"
  shows "(map_of (uTreeMap s) k = None \<longrightarrow>
            uRootHandleUBlockMsg env s p h height = Inl (UStateNotFound k)) \<and>
         (\<forall>u roots. map_of (uTreeMap s) k = Some u \<and>
              ProcessHeaderUBlock env h (uView u) = Some (True, roots) \<and>
              height = hintHeight (rootToVerify u) \<longrightarrow>
            (\<exists>s'. uRootHandleUBlockMsg env s p h height =
                     Inr (s', [ChainProcessHeaderUBlock h,
                               QueueProcessedURootHint
                                 \<lparr>Validated = (roots = hintRoots (rootToVerify u)),
                                  URootHintHeight = hintHeight (rootToVerify u)\<rparr>,
                               Reply]) \<and>
                  map_of (uTreeMap s') k = None))"
  using known asked node key
  by (auto simp: uRootHandleUBlockMsg_def removeRequestedBlock_def Let_def Equal_iff
      AList.delete_update_same AList.delete_conv' split: option.splits)

theorem worker_report_or_panic_witness:
  "map_of (peerStates exVerifyState) 1 =
     Some \<lparr>syncCandidate = True, requestQueue = [], peerRequestedTxns = {601},
           peerRequestedBlocks = {1101}\<rparr> \<and>
   LookupNode exEnv 1101 = Some 101 \<and>
   FindPreviousUtreexoRootHint exEnv 101 = None \<and>
   map_of (uTreeMap exState) 0 = None \<and>
   uRootHandleUBlockMsg exEnv exState 1 1101 101 = Inl (UStateNotFound 0) \<and>
   map_of (uTreeMap exVerifyState) 0 =
     Some \<lparr>uView = [], startRoot = None,
           rootToVerify = \<lparr>hintHeight = 101, hintRoots = [1101]\<rparr>\<rparr> \<and>
   ProcessHeaderUBlock exEnv 1101 [] = Some (True, [1101]) \<and>
   (\<exists>s'. uRootHandleUBlockMsg exEnv exVerifyState 1 1101 101 =
           Inr (s', [ChainProcessHeaderUBlock 1101,
                     QueueProcessedURootHint \<lparr>Validated = True, URootHintHeight = 101\<rparr>,
                     Reply]) \<and>
         map_of (uTreeMap s') 0 = None)"
proof -
  let ?st = "\<lparr>syncCandidate = True, requestQueue = [], peerRequestedTxns = {601},
              peerRequestedBlocks = {1101}\<rparr>"
  let ?u = "\<lparr>uView = [], startRoot = None,
             rootToVerify = \<lparr>hintHeight = 101, hintRoots = [1101]\<rparr>\<rparr>"
  have knownV: "map_of (peerStates exVerifyState) 1 = Some ?st"
    by (simp add: exVerifyState_def exState_def)
  have known: "map_of (peerStates exState) 1 = Some ?st"
    by (simp add: exState_def)
  have asked: "1101 \<in> peerRequestedBlocks ?st \<or> chainParams exState = RegressionNetParams"
    by simp
  have askedV: "1101 \<in> peerRequestedBlocks ?st \<or> chainParams exVerifyState = RegressionNetParams"
    by simp
  have node: "LookupNode exEnv 1101 = Some 101" by (simp add: exEnv_def)
  have prev: "FindPreviousUtreexoRootHint exEnv 101 = None" by (simp add: exEnv_def)
  have key: "(0::int) = (case FindPreviousUtreexoRootHint exEnv 101 of
                          None \<Rightarrow> 0 | Some r \<Rightarrow> hintHeight r)"
    by (simp add: prev)
  have none: "map_of (uTreeMap exState) 0 = None" by (simp add: ex_defs)
  have some: "map_of (uTreeMap exVerifyState) 0 = Some ?u" by (simp add: exVerifyState_def)
  have proc: "ProcessHeaderUBlock exEnv 1101 [] = Some (True, [1101])" by (simp add: exEnv_def)
  from worker_report_or_panic [OF known asked node key, of 101] none
  have a: "uRootHandleUBlockMsg exEnv exState 1 1101 101 = Inl (UStateNotFound 0)"
    by blast
  have "map_of (uTreeMap exVerifyState) 0 = Some ?u \<and>
        ProcessHeaderUBlock exEnv 1101 (uView ?u) = Some (True, [1101]) \<and>
        (101::int) = hintHeight (rootToVerify ?u)"
    using some proc by simp
  with worker_report_or_panic [OF knownV askedV node key, of 101]
  have "\<exists>s'. uRootHandleUBlockMsg exEnv exVerifyState 1 1101 101 =
           Inr (s', [ChainProcessHeaderUBlock 1101,
                     QueueProcessedURootHint
                       \<lparr>Validated = ([1101] = hintRoots (rootToVerify ?u)),
                        URootHintHeight = hintHeight (rootToVerify ?u)\<rparr>,
                     Reply]) \<and>
         map_of (uTreeMap s') 0 = None"
    by blast
  then have b: "\<exists>s'. uRootHandleUBlockMsg exEnv exVerifyState 1 1101 101 =
           Inr (s', [ChainProcessHeaderUBlock 1101,
                     QueueProcessedURootHint \<lparr>Validated = True, URootHintHeight = 101\<rparr>,
                     Reply]) \<and>
         map_of (uTreeMap s') 0 = None"
    by simp
  from knownV node prev none a some proc b show ?thesis by blast
qed

subsection \<open>The fetch functions write three fields\<close>

lemma fetchFrame_upd [simp]:
  "fetchFrame (s\<lparr>requestedBlocks := rb\<rparr>) = fetchFrame s"
  "fetchFrame (s\<lparr>peerStates := ps\<rparr>) = fetchFrame s"
  "fetchFrame (s\<lparr>startHeader := sh\<rparr>) = fetchFrame s"
  by (simp_all add: fetchFrame_def)

lemma addRequested_frame: "addRequested s h = Inr s1 \<Longrightarrow> fetchFrame s1 = fetchFrame s"
  by (auto simp: addRequested_def split: option.splits)

lemma fetchLoop_frame:
  "fetchLoop env ub r0 ns k n s gd = Inr (s', gd') \<Longrightarrow> fetchFrame s' = fetchFrame s"
proof (induction env ub r0 ns k n s gd rule: fetchLoop.induct)
  case (1 env ub r0 k numRequested s gd)
  then show ?case by simp
next
  case (2 env ub r0 node rest k numRequested s gd)
  show ?case
  proof (cases "fst (haveInventory env \<lparr>ivType = (if ub then InvTypeUBlock else InvTypeBlock), ivHash = nodeHash node\<rparr>)")
    case True
    with 2 show ?thesis by (auto simp: Let_def split: if_splits)
  next
    case False
    with 2 show ?thesis
      by (auto simp: Let_def addRequested_frame split: if_splits sum.splits)
  qed
qed

lemma sendGetData_state: "sendGetData s gd = Inr (s', evs) \<Longrightarrow> s' = s"
  by (auto simp: sendGetData_def split: if_splits option.splits)

lemma fetchHeaderBlocks_frame:
  "fetchHeaderBlocks env s = Inr (s', evs) \<Longrightarrow> fetchFrame s' = fetchFrame s"
  by (auto simp: fetchHeaderBlocks_def split: option.splits sum.splits
      dest!: sendGetData_state fetchLoop_frame)

lemma fetchHeaderUBlocks_frame:
  "fetchHeaderUBlocks env s = Inr (s', evs) \<Longrightarrow> fetchFrame s' = fetchFrame s"
  by (auto simp: fetchHeaderUBlocks_def split: option.splits sum.splits
      dest!: sendGetData_state fetchLoop_frame)

lemma fetchFrame_rejectedTxns: "fetchFrame s' = fetchFrame s \<Longrightarrow> rejectedTxns s' = rejectedTxns s"
  by (drule arg_cong [where f = rejectedTxns]) (simp add: fetchFrame_def)

lemma emit_Inr: "emit evs r = Inr (s', evs') \<longleftrightarrow> (\<exists>e. r = Inr (s', e) \<and> evs' = evs @ e)"
  by (auto simp: emit_def split: sum.splits)

lemma afterProcessBlock_accepted:
  "afterProcessBlock env ub s p h isCp False = Inr (s', evs) \<Longrightarrow> rejectedTxns s' = {}"
  by (auto simp: afterProcessBlock_def Let_def emit_Inr listInit_def
      split: if_splits option.splits
      dest!: fetchHeaderBlocks_frame fetchHeaderUBlocks_frame fetchFrame_rejectedTxns)



subsection \<open>Rejected transactions\<close>

text \<open>
  C7, as stated, fails in its last part: a block that the chain accepts as a non-orphan
  through a \<open>processBlockMsg\<close> (the synchronous \<open>ProcessBlock\<close> call) leaves \<open>rejectedTxns\<close>
  as it is.
\<close>

theorem processBlockMsg_keeps_rejectedTxns:
  "ProcessBlock exEnv 1102 BFNone = Processed True False \<and>
   blockHandlerMsg exEnv exRejected (processBlockMsg 1102 BFNone) =
     Inr (exRejected, [ChainProcessBlock 1102 BFNone, ReplyProcessBlock False None]) \<and>
   rejectedTxns exRejected = {777}"
  by (simp add: blockHandlerMsg_def replyProcessBlock_def exRejected_def exEnv_def)

lemma handleBlockCommon_accepted:
  assumes "map_of (peerStates s) p = Some state"
      and "b \<in> peerRequestedBlocks state \<or> chainParams s = RegressionNetParams"
      and "ub \<or> \<not> utreexoCSN s"
      and "frontHeaderCheck s b = Inr (isCp, fl, s1)"
      and "(if ub then ProcessUBlock env b fl else ProcessBlock env b fl) = Processed mc False"
      and "handleBlockCommon env ub s p b = Inr (s', evs)"
  shows "rejectedTxns s' = {}"
  using assms
  by (auto simp: handleBlockCommon_def Let_def emit_Inr split: if_splits
      dest!: afterProcessBlock_accepted)


text \<open>
  C7, amended. A transaction whose hash is in \<open>rejectedTxns\<close> makes \<open>handleTxMsg\<close> return
  with the state unchanged and without a call to the mempool. A transaction of a known peer
  that the mempool rejects is added to \<open>rejectedTxns\<close>, which stays within 1000 entries,
  and a reject message is sent to the peer. \<open>rejectedTxns\<close> is empty after
  \<open>handleBlockMsg\<close> or \<open>handleUBlockMsg\<close> has had the block of a peer accepted by the chain
  as a non-orphan; nothing is said of blocks accepted on other paths.
\<close>

theorem rejected_txns_handling:
  "(h \<in> rejectedTxns s \<longrightarrow> handleTxMsg env s p h = Inr (s, [])) \<and>
   (\<forall>state. map_of (peerStates s) p = Some state \<and> h \<notin> rejectedTxns s \<and>
       (\<forall>acc. ProcessTransaction env h \<noteq> TxAccepted acc) \<longrightarrow>
       (\<exists>s'. handleTxMsg env s p h =
               Inr (s', [MempoolProcessTransaction h p, PushRejectMsg p CmdTx h]) \<and>
             h \<in> rejectedTxns s' \<and>
             (finite (rejectedTxns s) \<and> card (rejectedTxns s) \<le> 1000 \<longrightarrow>
                card (rejectedTxns s') \<le> 1000))) \<and>
   (\<forall>state isCp fl s1 mc s' evs.
       map_of (peerStates s) p = Some state \<and>
       (b \<in> peerRequestedBlocks state \<or> chainParams s = RegressionNetParams) \<and>
       frontHeaderCheck s b = Inr (isCp, fl, s1) \<longrightarrow>
       (\<not> utreexoCSN s \<and> ProcessBlock env b fl = Processed mc False \<and>
        handleBlockMsg env s p b = Inr (s', evs) \<longrightarrow> rejectedTxns s' = {}) \<and>
       (ProcessUBlock env b fl = Processed mc False \<and>
        handleUBlockMsg env s p b = Inr (s', evs) \<longrightarrow> rejectedTxns s' = {}))"
proof (intro conjI allI impI)
  assume "h \<in> rejectedTxns s"
  then show "handleTxMsg env s p h = Inr (s, [])"
    by (simp add: handleTxMsg_def split: option.splits)
next
  fix state
  assume a: "map_of (peerStates s) p = Some state \<and> h \<notin> rejectedTxns s \<and>
       (\<forall>acc. ProcessTransaction env h \<noteq> TxAccepted acc)"
  let ?s1 = "s\<lparr>peerStates :=
                 AList.update p (state\<lparr>peerRequestedTxns := peerRequestedTxns state - {h}\<rparr>)
                   (peerStates s),
               requestedTxns := requestedTxns s - {h}\<rparr>"
  let ?s' = "?s1\<lparr>rejectedTxns :=
                limitAdd (rangeSeed env (rejectedTxns ?s1)) (rejectedTxns ?s1) h maxRejectedTxns\<rparr>"
  from a have run: "handleTxMsg env s p h =
      Inr (?s', [MempoolProcessTransaction h p, PushRejectMsg p CmdTx h])"
    by (cases "ProcessTransaction env h") (simp_all add: handleTxMsg_def Let_def)
  have mem: "h \<in> rejectedTxns ?s'" by (simp add: limitAdd_mem)
  have bound: "finite (rejectedTxns s) \<and> card (rejectedTxns s) \<le> 1000 \<longrightarrow>
      card (rejectedTxns ?s') \<le> 1000"
  proof
    assume f: "finite (rejectedTxns s) \<and> card (rejectedTxns s) \<le> 1000"
    then have "int (card (limitAdd (rangeSeed env (rejectedTxns s)) (rejectedTxns s) h maxRejectedTxns))
        \<le> maxRejectedTxns"
      by (intro limitAdd_card) (simp_all add: maxRejectedTxns_def)
    then show "card (rejectedTxns ?s') \<le> 1000" by (simp add: maxRejectedTxns_def)
  qed
  from run mem bound
  show "\<exists>s'. handleTxMsg env s p h =
               Inr (s', [MempoolProcessTransaction h p, PushRejectMsg p CmdTx h]) \<and>
             h \<in> rejectedTxns s' \<and>
             (finite (rejectedTxns s) \<and> card (rejectedTxns s) \<le> 1000 \<longrightarrow>
                card (rejectedTxns s') \<le> 1000)"
    by blast
next
  fix state isCp fl s1 mc s' evs
  assume a: "map_of (peerStates s) p = Some state \<and>
       (b \<in> peerRequestedBlocks state \<or> chainParams s = RegressionNetParams) \<and>
       frontHeaderCheck s b = Inr (isCp, fl, s1)"
     and r: "\<not> utreexoCSN s \<and> ProcessBlock env b fl = Processed mc False \<and>
        handleBlockMsg env s p b = Inr (s', evs)"
  from a r show "rejectedTxns s' = {}"
    by (intro handleBlockCommon_accepted [where ub = False and s = s and p = p and b = b])
       (auto simp: handleBlockMsg_def)
next
  fix state isCp fl s1 mc s' evs
  assume a: "map_of (peerStates s) p = Some state \<and>
       (b \<in> peerRequestedBlocks state \<or> chainParams s = RegressionNetParams) \<and>
       frontHeaderCheck s b = Inr (isCp, fl, s1)"
     and r: "ProcessUBlock env b fl = Processed mc False \<and>
        handleUBlockMsg env s p b = Inr (s', evs)"
  from a r show "rejectedTxns s' = {}"
    by (intro handleBlockCommon_accepted [where ub = True and s = s and p = p and b = b])
       (auto simp: handleUBlockMsg_def)
qed


theorem rejected_txns_handling_witness:
  "777 \<in> rejectedTxns exRejected \<and>
   handleTxMsg exEnv exRejected 1 777 = Inr (exRejected, []) \<and>
   601 \<notin> rejectedTxns exState \<and> ProcessTransaction exEnv 601 = TxRuleError \<and>
   (\<exists>s'. handleTxMsg exEnv exState 1 601 =
           Inr (s', [MempoolProcessTransaction 601 1, PushRejectMsg 1 CmdTx 601]) \<and>
         601 \<in> rejectedTxns s' \<and> card (rejectedTxns s') \<le> 1000) \<and>
   ProcessBlock exEnv 1101 BFNone = Processed True False \<and>
   (\<exists>s' evs. handleBlockMsg exEnv exRejected 1 1101 = Inr (s', evs) \<and> rejectedTxns s' = {}) \<and>
   (\<exists>s' evs. handleUBlockMsg exEnv exRejected 1 1101 = Inr (s', evs) \<and> rejectedTxns s' = {})"
proof -
  let ?st = "\<lparr>syncCandidate = True, requestQueue = [], peerRequestedTxns = {601},
              peerRequestedBlocks = {1101}\<rparr>"
  note th1 = rejected_txns_handling [of 777 exRejected exEnv 1 1101]
  note th2 = rejected_txns_handling [of 601 exState exEnv 1 1101]
  have r777: "777 \<in> rejectedTxns exRejected" by (simp add: exRejected_def)
  from th1 r777 have a: "handleTxMsg exEnv exRejected 1 777 = Inr (exRejected, [])" by blast
  have n601: "601 \<notin> rejectedTxns exState" by (simp add: ex_defs)
  have rej: "ProcessTransaction exEnv 601 = TxRuleError" by (simp add: exEnv_def)
  have known: "map_of (peerStates exState) 1 = Some ?st" by (simp add: exState_def)
  have knownR: "map_of (peerStates exRejected) 1 = Some ?st"
    by (simp add: exRejected_def exState_def)
  have small: "finite (rejectedTxns exState) \<and> card (rejectedTxns exState) \<le> 1000"
    by (simp add: ex_defs)
  have pre2: "map_of (peerStates exState) 1 = Some ?st \<and> 601 \<notin> rejectedTxns exState \<and>
       (\<forall>acc. ProcessTransaction exEnv 601 \<noteq> TxAccepted acc)"
    using known n601 rej by simp
  from th2 [THEN conjunct2, THEN conjunct1, THEN spec, THEN mp, OF pre2] small
  have b: "\<exists>s'. handleTxMsg exEnv exState 1 601 =
           Inr (s', [MempoolProcessTransaction 601 1, PushRejectMsg 1 CmdTx 601]) \<and>
         601 \<in> rejectedTxns s' \<and> card (rejectedTxns s') \<le> 1000"
    by blast
  have front: "frontHeaderCheck exRejected 1101 = Inr (False, BFNone, exRejected)"
    by (simp add: frontHeaderCheck_def exRejected_def ex_defs)
  have proc: "ProcessBlock exEnv 1101 BFNone = Processed True False" by (simp add: exEnv_def)
  have procU: "ProcessUBlock exEnv 1101 BFNone = Processed True False" by (simp add: exEnv_def)
  have csn: "\<not> utreexoCSN exRejected" by (simp add: exRejected_def ex_defs)
  have runs: "\<exists>s' evs. handleBlockMsg exEnv exRejected 1 1101 = Inr (s', evs)"
    by (simp add: handleBlockMsg_def handleBlockCommon_def frontHeaderCheck_def
        afterProcessBlock_def removeRequestedBlock_def emit_def current_def Let_def
        exRejected_def ex_defs)
  have runsU: "\<exists>s' evs. handleUBlockMsg exEnv exRejected 1 1101 = Inr (s', evs)"
    by (simp add: handleUBlockMsg_def handleBlockCommon_def frontHeaderCheck_def
        afterProcessBlock_def removeRequestedBlock_def emit_def current_def Let_def
        exRejected_def ex_defs)
  have pre3: "map_of (peerStates exRejected) 1 = Some ?st \<and>
       (1101 \<in> peerRequestedBlocks ?st \<or> chainParams exRejected = RegressionNetParams) \<and>
       frontHeaderCheck exRejected 1101 = Inr (False, BFNone, exRejected)"
    using knownR front by simp
  note c3 = th1 [THEN conjunct2, THEN conjunct2, THEN spec, THEN spec, THEN spec, THEN spec,
      THEN spec, THEN spec, THEN spec, THEN mp, OF pre3]
  from runs obtain s' evs where r: "handleBlockMsg exEnv exRejected 1 1101 = Inr (s', evs)"
    by blast
  from c3 [of True s' evs] csn proc r have "rejectedTxns s' = {}" by blast
  with r have c: "\<exists>s' evs. handleBlockMsg exEnv exRejected 1 1101 = Inr (s', evs) \<and>
      rejectedTxns s' = {}" by blast
  from runsU obtain t' evt where ru: "handleUBlockMsg exEnv exRejected 1 1101 = Inr (t', evt)"
    by blast
  from c3 [of True t' evt] procU ru have "rejectedTxns t' = {}" by blast
  with ru have d: "\<exists>s' evs. handleUBlockMsg exEnv exRejected 1 1101 = Inr (s', evs) \<and>
      rejectedTxns s' = {}" by blast
  from r777 a n601 rej b proc c d show ?thesis by blast
qed

subsection \<open>What choosing a sync peer sends\<close>

lemma andThen_Inr:
  "andThen r f = Inr (s', evs') \<longleftrightarrow>
     (\<exists>s1 e1 e2. r = Inr (s1, e1) \<and> f s1 = Inr (s', e2) \<and> evs' = e1 @ e2)"
  by (auto simp: andThen_def emit_Inr split: sum.splits)

lemma sendGetData_events:
  "sendGetData s gd = Inr (s', evs) \<Longrightarrow> list_all syncRequestEvent evs"
  by (auto simp: sendGetData_def syncRequestEvent_def split: if_splits option.splits)

lemma fetchHeaderVerifyUBlocks_events:
  "fetchHeaderVerifyUBlocks env s = Inr (s', evs) \<Longrightarrow> list_all syncRequestEvent evs"
  by (auto simp: fetchHeaderVerifyUBlocks_def split: option.splits sum.splits
      dest: sendGetData_events)

lemma fetchParallelVerifyUBlocks_events:
  "fetchParallelVerifyUBlocks env s a b = Inr (s', evs) \<Longrightarrow> list_all syncRequestEvent evs"
  by (auto simp: fetchParallelVerifyUBlocks_def split: option.splits sum.splits
      dest: sendGetData_events)

lemma fetchHeaderBlocks_events:
  "fetchHeaderBlocks env s = Inr (s', evs) \<Longrightarrow> list_all syncRequestEvent evs"
  by (auto simp: fetchHeaderBlocks_def split: option.splits sum.splits
      dest: sendGetData_events)

lemma fetchHeaderUBlocks_events:
  "fetchHeaderUBlocks env s = Inr (s', evs) \<Longrightarrow> list_all syncRequestEvent evs"
  by (auto simp: fetchHeaderUBlocks_def split: option.splits sum.splits
      dest: sendGetData_events)

lemma ValidateUtreexoRoot_events:
  "ValidateUtreexoRoot env s = Inr (s', evs) \<Longrightarrow> list_all syncRequestEvent evs"
  by (auto simp: ValidateUtreexoRoot_def Let_def andThen_Inr syncRequestEvent_def
      split: option.splits prod.splits if_splits list.splits
      dest: fetchHeaderVerifyUBlocks_events)

lemma ValidateParallelUtreexoRoot_events:
  "ValidateParallelUtreexoRoot env s a b = Inr (s', evs) \<Longrightarrow> list_all syncRequestEvent evs"
  by (auto simp: ValidateParallelUtreexoRoot_def Let_def andThen_Inr syncRequestEvent_def
      split: option.splits prod.splits if_splits
      dest: fetchParallelVerifyUBlocks_events)

lemma QueueURootHintEvents_events: "list_all syncRequestEvent (QueueURootHintEvents s hint)"
  by (simp add: QueueURootHintEvents_def syncRequestEvent_def)

lemma concat_QueueURootHintEvents:
  "list_all syncRequestEvent (concat (map (\<lambda>(k, u). QueueURootHintEvents s (rootToVerify u)) m))"
  by (induction m) (auto simp: QueueURootHintEvents_events)

lemma startSync_events:
  "startSync env s = Inr (s', evs) \<Longrightarrow> list_all syncRequestEvent evs"
  by (auto simp: startSync_def Let_def syncRequestEvent_def pushGetBlocksOrUBlocks_def
      concat_QueueURootHintEvents
      split: option.splits prod.splits if_splits
      dest: ValidateUtreexoRoot_events)


lemma syncRequestEvent_Disconnect: "list_all syncRequestEvent evs \<Longrightarrow> Disconnect q \<notin> set evs"
  by (auto simp: list_all_iff syncRequestEvent_def)


subsection \<open>The stall sample\<close>

text \<open>
  C5, as stated, fails: while the manager is shutting down, a stall-sample tick with a sync
  peer set and more than three minutes without progress changes nothing; the requests of the
  sync peer stay in the global maps and the sync peer stays set.
\<close>

theorem stall_sample_while_shutting_down:
  "syncPeer exShutdown = Some 1 \<and>
   now exLate - lastProgressTime exShutdown > maxStallDuration \<and>
   handleStallSample exLate exShutdown = Inr (exShutdown, []) \<and>
   requestedBlocks exShutdown = {1101}"
  by (simp add: handleStallSample_def exShutdown_def exLate_def maxStallDuration_def ex_defs)


text \<open>
  C5, amended. On a stall-sample tick while the manager is not shutting down, with a sync
  peer set that has an entry in \<open>peerStates\<close> and more than three minutes since
  \<open>lastProgressTime\<close>: the handler removes the sync peer's pending transaction and block
  requests from the global maps, disconnects the sync peer if and only if the greater of its
  last block and its starting height is strictly greater than the height of the chain tip,
  resets the header state when in headers-first mode, unsets \<open>syncPeer\<close> and runs
  \<open>startSync\<close> on that state. If no sync peer is set or three minutes have not elapsed,
  the state does not change (and nothing is sent).
\<close>

theorem stall_sample:
  "(shutdown s = 0 \<and> syncPeer s = Some sp \<and>
    now env - lastProgressTime s > maxStallDuration \<and>
    map_of (peerStates s) sp = Some state \<longrightarrow>
      (let dc = (max (LastBlock env sp) (StartingHeight env sp) > fst (BestSnapshot env));
           s1 = s\<lparr>requestedTxns := requestedTxns s - peerRequestedTxns state,
                  requestedBlocks := requestedBlocks s - peerRequestedBlocks state\<rparr>;
           s2 = (if headersFirstMode s1
                 then resetHeaderState env s1 (snd (BestSnapshot env)) (fst (BestSnapshot env))
                 else s1)
       in handleStallSample env s =
            emit (if dc then [Disconnect sp] else []) (startSync env (s2\<lparr>syncPeer := None\<rparr>)) \<and>
          (\<forall>s' evs. handleStallSample env s = Inr (s', evs) \<longrightarrow>
             (Disconnect sp \<in> set evs \<longleftrightarrow> dc)))) \<and>
   (syncPeer s = None \<or> now env - lastProgressTime s \<le> maxStallDuration \<longrightarrow>
      handleStallSample env s = Inr (s, []))"
proof (intro conjI impI)
  assume a: "shutdown s = 0 \<and> syncPeer s = Some sp \<and>
    now env - lastProgressTime s > maxStallDuration \<and>
    map_of (peerStates s) sp = Some state"
  define dc where "dc = (max (LastBlock env sp) (StartingHeight env sp) > fst (BestSnapshot env))"
  define s1 where "s1 = s\<lparr>requestedTxns := requestedTxns s - peerRequestedTxns state,
                  requestedBlocks := requestedBlocks s - peerRequestedBlocks state\<rparr>"
  define s2 where "s2 = (if headersFirstMode s1
                 then resetHeaderState env s1 (snd (BestSnapshot env)) (fst (BestSnapshot env))
                 else s1)"
  have dceq: "shouldDCStalledSyncPeer env sp = dc"
    by (auto simp: shouldDCStalledSyncPeer_def dc_def Let_def max_def)
  have sp1: "syncPeer s1 = Some sp" using a by (simp add: s1_def)
  have run: "handleStallSample env s =
      emit (if dc then [Disconnect sp] else []) (startSync env (s2\<lparr>syncPeer := None\<rparr>))"
    using a sp1
    by (simp add: handleStallSample_def updateSyncPeer_def andThen_def clearRequestedState_def
        dceq s1_def [symmetric] s2_def [symmetric] Let_def emit_def split: sum.splits)
  have iff: "\<forall>s' evs. handleStallSample env s = Inr (s', evs) \<longrightarrow>
             (Disconnect sp \<in> set evs \<longleftrightarrow> dc)"
  proof (intro allI impI)
    fix s' evs
    assume "handleStallSample env s = Inr (s', evs)"
    with run have "emit (if dc then [Disconnect sp] else [])
        (startSync env (s2\<lparr>syncPeer := None\<rparr>)) = Inr (s', evs)" by simp
    then obtain e where e: "startSync env (s2\<lparr>syncPeer := None\<rparr>) = Inr (s', e)"
      and evs: "evs = (if dc then [Disconnect sp] else []) @ e"
      by (auto simp: emit_Inr)
    from e have "Disconnect sp \<notin> set e"
      by (intro syncRequestEvent_Disconnect startSync_events)
    with evs show "Disconnect sp \<in> set evs \<longleftrightarrow> dc" by auto
  qed
  from run iff
  show "let dc = (max (LastBlock env sp) (StartingHeight env sp) > fst (BestSnapshot env));
           s1 = s\<lparr>requestedTxns := requestedTxns s - peerRequestedTxns state,
                  requestedBlocks := requestedBlocks s - peerRequestedBlocks state\<rparr>;
           s2 = (if headersFirstMode s1
                 then resetHeaderState env s1 (snd (BestSnapshot env)) (fst (BestSnapshot env))
                 else s1)
       in handleStallSample env s =
            emit (if dc then [Disconnect sp] else []) (startSync env (s2\<lparr>syncPeer := None\<rparr>)) \<and>
          (\<forall>s' evs. handleStallSample env s = Inr (s', evs) \<longrightarrow>
             (Disconnect sp \<in> set evs \<longleftrightarrow> dc))"
    unfolding Let_def dc_def s1_def s2_def by blast
next
  assume "syncPeer s = None \<or> now env - lastProgressTime s \<le> maxStallDuration"
  then show "handleStallSample env s = Inr (s, [])"
    by (auto simp: handleStallSample_def split: option.splits)
qed


theorem stall_sample_witness:
  "shutdown exState = 0 \<and> syncPeer exState = Some 1 \<and>
   now exLate - lastProgressTime exState > maxStallDuration \<and>
   map_of (peerStates exState) 1 =
     Some \<lparr>syncCandidate = True, requestQueue = [], peerRequestedTxns = {601},
           peerRequestedBlocks = {1101}\<rparr> \<and>
   max (LastBlock exLate 1) (StartingHeight exLate 1) > fst (BestSnapshot exLate) \<and>
   handleStallSample exLate exState =
     Inr (exState\<lparr>requestedTxns := {}, requestedBlocks := {},
                  lastProgressTime := 2000000000000\<rparr>,
          [Disconnect 1, PushGetBlocksMsg 1 [1100] 0]) \<and>
   now exEnv - lastProgressTime exState \<le> maxStallDuration \<and>
   handleStallSample exEnv exState = Inr (exState, [])"
proof -
  let ?st = "\<lparr>syncCandidate = True, requestQueue = [], peerRequestedTxns = {601},
              peerRequestedBlocks = {1101}\<rparr>"
  have pre: "shutdown exState = 0 \<and> syncPeer exState = Some 1 \<and>
      now exLate - lastProgressTime exState > maxStallDuration \<and>
      map_of (peerStates exState) 1 = Some ?st"
    by (simp add: exLate_def maxStallDuration_def ex_defs)
  have dc: "max (LastBlock exLate 1) (StartingHeight exLate 1) > fst (BestSnapshot exLate)"
    by (simp add: exLate_def exEnv_def)
  note th = stall_sample [of exState 1 exLate ?st, THEN conjunct1, THEN mp, OF pre,
      unfolded Let_def, THEN conjunct1]
  have run: "handleStallSample exLate exState =
     Inr (exState\<lparr>requestedTxns := {}, requestedBlocks := {},
                  lastProgressTime := 2000000000000\<rparr>,
          [Disconnect 1, PushGetBlocksMsg 1 [1100] 0])"
    unfolding th
    by (simp add: startSync_def pickBestPeer_def emit_def Let_def zeroHash_def
        exLate_def ex_defs)
  have early: "now exEnv - lastProgressTime exState \<le> maxStallDuration"
    by (simp add: maxStallDuration_def ex_defs)
  from stall_sample [of exState 1 exEnv ?st, THEN conjunct2] early
  have idle: "handleStallSample exEnv exState = Inr (exState, [])" by blast
  from pre dc run early idle show ?thesis by blast
qed

end
